theory Spec2Isabelle
  imports Main "HOL-Library.Word"
begin

section \<open>Offline state maintenance commands of geth (cmd/geth/snapshot.go, cmd/geth/dbcmd.go)\<close>

text \<open>
  The commands are drivers: each one calls into other packages (rawdb, trie, triedb,
  snapshot, pruner, rlp, crypto, log, utils). What such a call returns is an input of the
  model (a field of one of the records below), and what the driver does with it is the
  model. Every command yields

  \<^item> an outcome: the error value it returns (\<open>Return None\<close> is Go's \<open>nil\<close>), a process
    exit (\<open>log.Crit\<close>, \<open>utils.Fatalf\<close>) or a run-time panic;
  \<^item> the trace of what it did, in order: the calls that open or change a store, and the
    log records it wrote.

  Deferred \<open>Close\<close> calls and the progress report printed every eight seconds of
  wall-clock time are left out: neither changes a result.
\<close>

subsection \<open>Bytes, hashes, errors\<close>

type_synonym bytes = "8 word list"

text \<open>\<open>common.Hash\<close> is \<open>[32]byte\<close>; \<open>common.Hash{}\<close> is the zero value.\<close>

type_synonym hash = "8 word list"

definition zeroHash :: hash where
  "zeroHash = replicate 32 0"

text \<open>
  An error created by the driver itself (\<open>errors.New\<close>, \<open>fmt.Errorf\<close>) or one handed
  back unchanged from a callee. Go compares errors by identity, so the two never coincide.
\<close>

datatype error = Err string | Ext string

datatype outcome = Return "error option" | Exit nat | Panic

subsection \<open>Log records and the trace\<close>

datatype ctxv = VHash hash | VErr error | VNum "64 word" | VBytes bytes | VStr string

datatype lvl = LvInfo | LvError | LvCrit

text \<open>\<open>core.Genesis\<close> (package core): a genesis specification is an opaque value here.\<close>

datatype genesis = Genesis string

datatype trieID = StateTrieID hash | StorageTrieID hash hash hash

datatype event =
    Log lvl string "(string \<times> ctxv) list"
  | Fatalf string
  | Println string
  | EvMakeChainDatabase bool
  | EvMakeTrieDatabase
  | EvNewPruner
  | EvPrune hash
  | EvNewAllPruner
  | EvPruneAll "genesis option"
  | EvSnapshotNew hash
  | EvVerify hash
  | EvCheckDanglingStorage
  | EvNewStateTrie trieID
  | EvNodeReader hash
  | EvSyncAncient
  | EvTrieNew trieID
  | EvNewHbss2Pbss hash "64 word" "64 word"
  | EvRun
  | EvResetStateFreezerTableOffset string "64 word"
  | EvPruneHashTrieNodeInDataBase

subsection \<open>The command line\<close>

record ctx =
  args :: "string list"
  forceFlag :: bool
  ancientFlag :: string

text \<open>\<open>ctx.Args().First()\<close>: the first argument, or the empty string.\<close>

definition first :: "ctx \<Rightarrow> string" where
  "first cx = (case args cx of [] \<Rightarrow> [] | a # _ \<Rightarrow> a)"

definition NArg :: "ctx \<Rightarrow> nat" where
  "NArg cx = length (args cx)"

subsection \<open>Functions and constants of other packages\<close>

text \<open>\<open>types.StateAccount\<close>.\<close>

record account =
  accNonce :: "64 word"
  accBalance :: nat
  accRoot :: hash
  accCodeHash :: bytes

text \<open>
  What a \<open>trie.NodeIterator\<close> shows at one position: \<open>Hash()\<close>, \<open>Path()\<close>, \<open>Leaf()\<close>,
  and on a leaf \<open>LeafKey()\<close> and \<open>LeafBlob()\<close>. An iterator is the sequence of positions
  \<open>Next(true)\<close> steps through, and the value of \<open>Error()\<close> once \<open>Next\<close> has returned false.
\<close>

record node =
  nHash :: hash
  nPath :: bytes
  nLeaf :: bool
  nLeafKey :: bytes
  nLeafBlob :: bytes

record nodeIter =
  itNodes :: "node list"
  itErr :: "string option"

text \<open>\<open>trie.Iterator\<close>: the key/value pairs \<open>Next()\<close> steps through, and \<open>Err\<close> afterwards.\<close>

record kvIter =
  kvEntries :: "(bytes \<times> bytes) list"
  kvErr :: "string option"

record lib =
  unmarshalText :: "string \<Rightarrow> string + hash"
  emptyRootHash :: hash
  emptyCodeHash :: bytes
  decodeAccount :: "bytes \<Rightarrow> string + account"
  keccak256 :: "bytes \<Rightarrow> bytes"
  bytesToHash :: "bytes \<Rightarrow> hash"
  newIterator :: "nodeIter \<Rightarrow> kvIter"

subsection \<open>parseRoot\<close>

text \<open>
  \<open>h.UnmarshalText\<close> either fails or fills the hash. On failure \<open>parseRoot\<close> returns the
  hash together with the error; every caller drops the hash then.
\<close>

definition parseRoot :: "lib \<Rightarrow> string \<Rightarrow> hash \<times> error option" where
  "parseRoot L input =
     (case unmarshalText L input of
        Inl err \<Rightarrow> (zeroHash, Some (Ext err))
      | Inr h \<Rightarrow> (h, None))"

subsection \<open>prune-state\<close>

text \<open>\<open>rawdb.HashScheme\<close>; \<open>rawdb.ReadStateScheme\<close> returns a string (empty when no state is stored).\<close>

definition HashScheme :: string where
  "HashScheme = ''hash''"

record prunedb =
  readStateScheme :: string
  newPruner :: "string option"
  prune :: "hash \<Rightarrow> string option"

text \<open>
  \<open>log.Crit\<close> (package log) writes the record and ends the process with status 1;
  nothing after it runs.
\<close>

definition pruneState :: "lib \<Rightarrow> ctx \<Rightarrow> prunedb \<Rightarrow> outcome \<times> event list" where
  "pruneState L cx db =
     (let tr0 = [EvMakeChainDatabase False] in
      if readStateScheme db \<noteq> HashScheme then
        (Exit 1, tr0 @ [Log LvCrit ''Offline pruning is not required for path scheme'' []])
      else
        (let tr1 = tr0 @ [EvNewPruner] in
         case newPruner db of
           Some err \<Rightarrow>
             (Return (Some (Ext err)),
              tr1 @ [Log LvError ''Failed to open snapshot tree'' [(''err'', VErr (Ext err))]])
         | None \<Rightarrow>
             if NArg cx > 1 then
               (Return (Some (Err ''too many arguments'')),
                tr1 @ [Log LvError ''Too many arguments given'' []])
             else
               (let (targetRoot, perr) =
                      (if NArg cx = 1 then parseRoot L (first cx) else (zeroHash, None)) in
                case perr of
                  Some err \<Rightarrow>
                    (Return (Some err),
                     tr1 @ [Log LvError ''Failed to resolve state root'' [(''err'', VErr err)]])
                | None \<Rightarrow>
                    (case prune db targetRoot of
                       Some err \<Rightarrow>
                         (Return (Some (Ext err)),
                          tr1 @ [EvPrune targetRoot,
                                 Log LvError ''Failed to prune state'' [(''err'', VErr (Ext err))]])
                     | None \<Rightarrow> (Return None, tr1 @ [EvPrune targetRoot])))))"

text \<open>The events that change the node store or the freezer.\<close>

fun mutation :: "event \<Rightarrow> bool" where
  "mutation (EvPrune _) = True"
| "mutation (EvPruneAll _) = True"
| "mutation EvRun = True"
| "mutation (EvResetStateFreezerTableOffset _ _) = True"
| "mutation EvPruneHashTrieNodeInDataBase = True"
| "mutation _ = False"

subsection \<open>insecure-prune-all\<close>

text \<open>
  \<open>os.Open\<close>, the JSON decoder, \<open>loadConfig\<close> (which leaves \<open>cfg.Eth.Genesis\<close>, possibly
  nil) and \<open>pruner.NewAllPruner\<close> are inputs. The node store is the list of its keys.
\<close>

record alldb =
  openFile :: "string \<Rightarrow> string + bytes"
  decodeGenesis :: "bytes \<Rightarrow> string + genesis"
  loadConfig :: "string \<Rightarrow> string + genesis option"
  newAllPruner :: "string option"
  pruneAllErr :: "genesis option \<Rightarrow> string option"
  genesisNodes :: "genesis option \<Rightarrow> bytes list"
  isTrieKey :: "bytes \<Rightarrow> bool"

text \<open>
  Modelled from the spec: \<open>pruner.PruneAll\<close> (core/state/pruner is not among the sources).
  The spec: it "deletes every trie-related key in the node store except the genesis
  state's nodes, re-derived by walking the genesis trie only", and a prune that fails
  "aborts without deleting anything". Which keys are trie-related, which nodes the walk
  of a genesis state reaches, and whether the prune fails are inputs.
\<close>

definition PruneAll :: "alldb \<Rightarrow> genesis option \<Rightarrow> bytes list \<Rightarrow> string option \<times> bytes list" where
  "PruneAll db g store =
     (case pruneAllErr db g of
        Some err \<Rightarrow> (Some err, store)
      | None \<Rightarrow> (None, filter (\<lambda>k. \<not> isTrieKey db k \<or> k \<in> set (genesisNodes db g)) store))"

text \<open>\<open>utils.Fatalf\<close> prints the message and ends the process with status 1.\<close>

text \<open>
  Lines 252-265: the file is decoded as genesis JSON; when that fails, the path is read as
  a configuration file and the genesis is the one of the configuration.
\<close>

definition loadGenesis :: "alldb \<Rightarrow> string \<Rightarrow> bytes \<Rightarrow> string + genesis option" where
  "loadGenesis db genesisPath file =
     (case decodeGenesis db file of
        Inr g \<Rightarrow> Inr (Some g)
      | Inl _ \<Rightarrow> loadConfig db genesisPath)"

definition pruneAllState :: "ctx \<Rightarrow> alldb \<Rightarrow> bytes list \<Rightarrow> outcome \<times> event list \<times> bytes list" where
  "pruneAllState cx db store =
     (let genesisPath = first cx in
      if length genesisPath = 0 then
        (Exit 1, [Fatalf ''Must supply path to genesis JSON file''], store)
      else
        case openFile db genesisPath of
          Inl err \<Rightarrow> (Exit 1, [Fatalf (''Failed to read genesis file: '' @ err)], store)
        | Inr file \<Rightarrow>
            (case loadGenesis db genesisPath file of
               Inl err \<Rightarrow> (Exit 1, [Fatalf err], store)
             | Inr g \<Rightarrow>
                 (let tr0 = [EvMakeChainDatabase False, EvNewAllPruner] in
                  case newAllPruner db of
                    Some err \<Rightarrow>
                      (Return (Some (Ext err)),
                       tr0 @ [Log LvError ''Failed to open snapshot tree'' [(''err'', VErr (Ext err))]],
                       store)
                  | None \<Rightarrow>
                      (case PruneAll db g store of
                         (Some err, store') \<Rightarrow>
                           (Return (Some (Ext err)),
                            tr0 @ [EvPruneAll g,
                                   Log LvError ''Failed to prune state'' [(''err'', VErr (Ext err))]],
                            store')
                       | (None, store') \<Rightarrow> (Return None, tr0 @ [EvPruneAll g], store')))))"

subsection \<open>verify-state\<close>

record block =
  blockRoot :: hash
  blockNumberU64 :: "64 word"

text \<open>\<open>trie.StateTrie\<close>: what \<open>NodeIterator(nil)\<close> returns on it.\<close>

record trie =
  nodeIterator :: "string + nodeIter"

text \<open>\<open>reader.Node(owner, path, hash)\<close>.\<close>

type_synonym reader = "hash \<Rightarrow> bytes \<Rightarrow> hash \<Rightarrow> bytes \<times> string option"

record statedb =
  readHeadBlock :: "block option"
  snapshotNew :: "hash \<Rightarrow> string option"
  verify :: "hash \<Rightarrow> string option"
  checkDanglingStorage :: "string option"
  newStateTrie :: "trieID \<Rightarrow> string + trie"
  nodeReader :: "hash \<Rightarrow> string + reader"
  hasCode :: "hash \<Rightarrow> bool"

definition verifyState :: "lib \<Rightarrow> ctx \<Rightarrow> statedb \<Rightarrow> outcome \<times> event list" where
  "verifyState L cx db =
     (let tr0 = [EvMakeChainDatabase True] in
      case readHeadBlock db of
        None \<Rightarrow>
          (Return (Some (Err ''no head block'')), tr0 @ [Log LvError ''Failed to load head block'' []])
      | Some headBlock \<Rightarrow>
          (let tr1 = tr0 @ [EvMakeTrieDatabase, EvSnapshotNew (blockRoot headBlock)] in
           case snapshotNew db (blockRoot headBlock) of
             Some err \<Rightarrow>
               (Return (Some (Ext err)),
                tr1 @ [Log LvError ''Failed to open snapshot tree'' [(''err'', VErr (Ext err))]])
           | None \<Rightarrow>
               if NArg cx > 1 then
                 (Return (Some (Err ''too many arguments'')),
                  tr1 @ [Log LvError ''Too many arguments given'' []])
               else
                 (let (root, perr) =
                        (if NArg cx = 1 then parseRoot L (first cx) else (blockRoot headBlock, None)) in
                  case perr of
                    Some err \<Rightarrow>
                      (Return (Some err),
                       tr1 @ [Log LvError ''Failed to resolve state root'' [(''err'', VErr err)]])
                  | None \<Rightarrow>
                      (case verify db root of
                         Some err \<Rightarrow>
                           (Return (Some (Ext err)),
                            tr1 @ [EvVerify root,
                                   Log LvError ''Failed to verify state''
                                     [(''root'', VHash root), (''err'', VErr (Ext err))]])
                       | None \<Rightarrow>
                           (Return (map_option Ext (checkDanglingStorage db)),
                            tr1 @ [EvVerify root,
                                   Log LvInfo ''Verified the state'' [(''root'', VHash root)],
                                   EvCheckDanglingStorage])))))"

subsection \<open>traverse-state\<close>

text \<open>The counters are Go \<open>int\<close>s (64 bits on the platforms geth is built for).\<close>

record counters =
  cNodes :: "64 word"
  cAccounts :: "64 word"
  cSlots :: "64 word"
  cCodes :: "64 word"

definition noCounts :: counters where
  "noCounts = \<lparr>cNodes = 0, cAccounts = 0, cSlots = 0, cCodes = 0\<rparr>"

text \<open>\<open>for storageIter.Next() { slots += 1 }\<close>\<close>

fun countSlots :: "(bytes \<times> bytes) list \<Rightarrow> counters \<Rightarrow> counters" where
  "countSlots [] c = c"
| "countSlots (kv # kvs) c = countSlots kvs (c\<lparr>cSlots := cSlots c + 1\<rparr>)"

text \<open>The body of \<open>if acc.Root != types.EmptyRootHash\<close>: open and walk the storage trie.\<close>

definition stateStorage ::
  "lib \<Rightarrow> statedb \<Rightarrow> hash \<Rightarrow> bytes \<Rightarrow> account \<Rightarrow> counters \<Rightarrow> error option \<times> counters \<times> event list" where
  "stateStorage L db root key acc c =
     (let id = StorageTrieID root (bytesToHash L key) (accRoot acc) in
      case newStateTrie db id of
        Inl err \<Rightarrow>
          (Some (Ext err), c,
           [EvNewStateTrie id,
            Log LvError ''Failed to open storage trie''
              [(''root'', VHash (accRoot acc)), (''err'', VErr (Ext err))]])
      | Inr storageTrie \<Rightarrow>
          (case nodeIterator storageTrie of
             Inl err \<Rightarrow>
               (Some (Ext err), c,
                [EvNewStateTrie id,
                 Log LvError ''Failed to open storage iterator''
                   [(''root'', VHash (accRoot acc)), (''err'', VErr (Ext err))]])
           | Inr storageIt \<Rightarrow>
               (let storageIter = newIterator L storageIt;
                    c1 = countSlots (kvEntries storageIter) c in
                case kvErr storageIter of
                  Some err \<Rightarrow>
                    (Some (Ext err), c1,
                     [EvNewStateTrie id,
                      Log LvError ''Failed to traverse storage trie''
                        [(''root'', VHash (accRoot acc)), (''err'', VErr (Ext err))]])
                | None \<Rightarrow> (None, c1, [EvNewStateTrie id]))))"

text \<open>One round of \<open>for accIter.Next()\<close>, for the entry \<open>(Key, Value)\<close>.\<close>

definition stateAccount ::
  "lib \<Rightarrow> statedb \<Rightarrow> hash \<Rightarrow> bytes \<times> bytes \<Rightarrow> counters \<Rightarrow> error option \<times> counters \<times> event list" where
  "stateAccount L db root kv c =
     (let c1 = c\<lparr>cAccounts := cAccounts c + 1\<rparr> in
      case decodeAccount L (snd kv) of
        Inl err \<Rightarrow>
          (Some (Ext err), c1,
           [Log LvError ''Invalid account encountered during traversal'' [(''err'', VErr (Ext err))]])
      | Inr acc \<Rightarrow>
          (let (r, c2, tr) =
                 (if accRoot acc \<noteq> emptyRootHash L then stateStorage L db root (fst kv) acc c1
                  else (None, c1, [])) in
           case r of
             Some e \<Rightarrow> (Some e, c2, tr)
           | None \<Rightarrow>
               if accCodeHash acc \<noteq> emptyCodeHash L then
                 (if \<not> hasCode db (bytesToHash L (accCodeHash acc)) then
                    (Some (Err ''missing code''), c2,
                     tr @ [Log LvError ''Code is missing''
                             [(''hash'', VHash (bytesToHash L (accCodeHash acc)))]])
                  else (None, c2\<lparr>cCodes := cCodes c2 + 1\<rparr>, tr))
               else (None, c2, tr)))"

fun stateAccountLoop ::
  "lib \<Rightarrow> statedb \<Rightarrow> hash \<Rightarrow> (bytes \<times> bytes) list \<Rightarrow> counters \<Rightarrow> error option \<times> counters \<times> event list" where
  "stateAccountLoop L db root [] c = (None, c, [])"
| "stateAccountLoop L db root (kv # kvs) c =
     (case stateAccount L db root kv c of
        (Some e, c1, tr) \<Rightarrow> (Some e, c1, tr)
      | (None, c1, tr) \<Rightarrow>
          (case stateAccountLoop L db root kvs c1 of (r, c2, tr') \<Rightarrow> (r, c2, tr @ tr')))"

text \<open>
  The argument handling shared by traverse-state and traverse-rawstate, after the head
  block has been read: the root to walk and the record logged, or the error returned.
\<close>

definition chooseRoot :: "lib \<Rightarrow> ctx \<Rightarrow> block \<Rightarrow> (error \<times> event list) + (hash \<times> event list)" where
  "chooseRoot L cx headBlock =
     (if NArg cx > 1 then
        Inl (Err ''too many arguments'', [Log LvError ''Too many arguments given'' []])
      else if NArg cx = 1 then
        (case parseRoot L (first cx) of
           (_, Some err) \<Rightarrow>
             Inl (err, [Log LvError ''Failed to resolve state root'' [(''err'', VErr err)]])
         | (root, None) \<Rightarrow>
             Inr (root, [Log LvInfo ''Start traversing the state'' [(''root'', VHash root)]]))
      else
        Inr (blockRoot headBlock,
             [Log LvInfo ''Start traversing the state''
                [(''root'', VHash (blockRoot headBlock)), (''number'', VNum (blockNumberU64 headBlock))]]))"

definition traverseState :: "lib \<Rightarrow> ctx \<Rightarrow> statedb \<Rightarrow> outcome \<times> event list" where
  "traverseState L cx db =
     (let tr0 = [EvMakeChainDatabase True, EvMakeTrieDatabase] in
      case readHeadBlock db of
        None \<Rightarrow>
          (Return (Some (Err ''no head block'')), tr0 @ [Log LvError ''Failed to load head block'' []])
      | Some headBlock \<Rightarrow>
          (case chooseRoot L cx headBlock of
             Inl (err, lg) \<Rightarrow> (Return (Some err), tr0 @ lg)
           | Inr (root, lg) \<Rightarrow>
               (let tr1 = tr0 @ lg @ [EvNewStateTrie (StateTrieID root)] in
                case newStateTrie db (StateTrieID root) of
                  Inl err \<Rightarrow>
                    (Return (Some (Ext err)),
                     tr1 @ [Log LvError ''Failed to open trie''
                              [(''root'', VHash root), (''err'', VErr (Ext err))]])
                | Inr t \<Rightarrow>
                    (case nodeIterator t of
                       Inl err \<Rightarrow>
                         (Return (Some (Ext err)),
                          tr1 @ [Log LvError ''Failed to open iterator''
                                   [(''root'', VHash root), (''err'', VErr (Ext err))]])
                     | Inr acctIt \<Rightarrow>
                         (let accIter = newIterator L acctIt in
                          case stateAccountLoop L db root (kvEntries accIter) noCounts of
                            (Some e, c, tr) \<Rightarrow> (Return (Some e), tr1 @ tr)
                          | (None, c, tr) \<Rightarrow>
                              (case kvErr accIter of
                                 Some err \<Rightarrow>
                                   (Return (Some (Ext err)),
                                    tr1 @ tr @ [Log LvError ''Failed to traverse state trie''
                                                  [(''root'', VHash root), (''err'', VErr (Ext err))]])
                               | None \<Rightarrow>
                                   (Return None,
                                    tr1 @ tr @ [Log LvInfo ''State is complete''
                                                  [(''accounts'', VNum (cAccounts c)),
                                                   (''slots'', VNum (cSlots c)),
                                                   (''codes'', VNum (cCodes c))]])))))))"

subsection \<open>traverse-rawstate\<close>

text \<open>
  One round of \<open>for storageIter.Next(true)\<close>. The error of \<open>reader.Node\<close> is dropped by
  the source (\<open>blob, _ :=\<close>); \<open>hasher.Reset; Write(blob); Read(got)\<close> is \<open>keccak256\<close>.
\<close>

fun rawStorageLoop ::
  "lib \<Rightarrow> reader \<Rightarrow> bytes \<Rightarrow> node list \<Rightarrow> counters \<Rightarrow> error option \<times> counters \<times> event list" where
  "rawStorageLoop L rd key [] c = (None, c, [])"
| "rawStorageLoop L rd key (n # ns) c =
     (let c1 = c\<lparr>cNodes := cNodes c + 1\<rparr>;
          node = nHash n;
          blob = fst (rd (bytesToHash L key) (nPath n) node) in
      if node \<noteq> zeroHash \<and> length blob = 0 then
        (Some (Err ''missing storage''), c1,
         [Log LvError ''Missing trie node(storage)'' [(''hash'', VHash node)]])
      else if node \<noteq> zeroHash \<and> keccak256 L blob \<noteq> node then
        (Some (Err ''invalid storage node''), c1,
         [Log LvError ''Invalid trie node(storage)'' [(''hash'', VHash node), (''value'', VBytes blob)]])
      else
        rawStorageLoop L rd key ns (if nLeaf n then c1\<lparr>cSlots := cSlots c1 + 1\<rparr> else c1))"

text \<open>The body of \<open>if acc.Root != types.EmptyRootHash\<close> in the raw traversal.\<close>

definition rawStorage ::
  "lib \<Rightarrow> statedb \<Rightarrow> reader \<Rightarrow> hash \<Rightarrow> bytes \<Rightarrow> account \<Rightarrow> counters \<Rightarrow> error option \<times> counters \<times> event list" where
  "rawStorage L db rd root key acc c =
     (let id = StorageTrieID root (bytesToHash L key) (accRoot acc) in
      case newStateTrie db id of
        Inl err \<Rightarrow>
          (Some (Err ''missing storage trie''), c,
           [EvNewStateTrie id,
            Log LvError ''Failed to open storage trie''
              [(''root'', VHash (accRoot acc)), (''err'', VErr (Ext err))]])
      | Inr storageTrie \<Rightarrow>
          (case nodeIterator storageTrie of
             Inl err \<Rightarrow>
               (Some (Ext err), c,
                [EvNewStateTrie id,
                 Log LvError ''Failed to open storage iterator''
                   [(''root'', VHash (accRoot acc)), (''err'', VErr (Ext err))]])
           | Inr storageIter \<Rightarrow>
               (case rawStorageLoop L rd key (itNodes storageIter) c of
                  (Some e, c1, tr) \<Rightarrow> (Some e, c1, EvNewStateTrie id # tr)
                | (None, c1, tr) \<Rightarrow>
                    (case itErr storageIter of
                       Some err \<Rightarrow>
                         (Some (Ext err), c1,
                          EvNewStateTrie id # tr @
                          [Log LvError ''Failed to traverse storage trie''
                             [(''root'', VHash (accRoot acc)), (''err'', VErr (Ext err))]])
                     | None \<Rightarrow> (None, c1, EvNewStateTrie id # tr)))))"

text \<open>The body of \<open>if accIter.Leaf()\<close>.\<close>

definition rawLeaf ::
  "lib \<Rightarrow> statedb \<Rightarrow> reader \<Rightarrow> hash \<Rightarrow> node \<Rightarrow> counters \<Rightarrow> error option \<times> counters \<times> event list" where
  "rawLeaf L db rd root n c =
     (let c1 = c\<lparr>cAccounts := cAccounts c + 1\<rparr> in
      case decodeAccount L (nLeafBlob n) of
        Inl err \<Rightarrow>
          (Some (Err ''invalid account''), c1,
           [Log LvError ''Invalid account encountered during traversal'' [(''err'', VErr (Ext err))]])
      | Inr acc \<Rightarrow>
          (let (r, c2, tr) =
                 (if accRoot acc \<noteq> emptyRootHash L then rawStorage L db rd root (nLeafKey n) acc c1
                  else (None, c1, [])) in
           case r of
             Some e \<Rightarrow> (Some e, c2, tr)
           | None \<Rightarrow>
               if accCodeHash acc \<noteq> emptyCodeHash L then
                 (if \<not> hasCode db (bytesToHash L (accCodeHash acc)) then
                    (Some (Err ''missing code''), c2,
                     tr @ [Log LvError ''Code is missing''
                             [(''account'', VHash (bytesToHash L (nLeafKey n)))]])
                  else (None, c2\<lparr>cCodes := cCodes c2 + 1\<rparr>, tr))
               else (None, c2, tr)))"

text \<open>One round of \<open>for accIter.Next(true)\<close>.\<close>

fun rawAccountLoop ::
  "lib \<Rightarrow> statedb \<Rightarrow> reader \<Rightarrow> hash \<Rightarrow> node list \<Rightarrow> counters \<Rightarrow> error option \<times> counters \<times> event list" where
  "rawAccountLoop L db rd root [] c = (None, c, [])"
| "rawAccountLoop L db rd root (n # ns) c =
     (let c1 = c\<lparr>cNodes := cNodes c + 1\<rparr>;
          node = nHash n;
          blob = fst (rd zeroHash (nPath n) node) in
      if node \<noteq> zeroHash \<and> length blob = 0 then
        (Some (Err ''missing account''), c1,
         [Log LvError ''Missing trie node(account)'' [(''hash'', VHash node)]])
      else if node \<noteq> zeroHash \<and> keccak256 L blob \<noteq> node then
        (Some (Err ''invalid account node''), c1,
         [Log LvError ''Invalid trie node(account)'' [(''hash'', VHash node), (''value'', VBytes blob)]])
      else
        (case (if nLeaf n then rawLeaf L db rd root n c1 else (None, c1, [])) of
           (Some e, c2, tr) \<Rightarrow> (Some e, c2, tr)
         | (None, c2, tr) \<Rightarrow>
             (case rawAccountLoop L db rd root ns c2 of (r, c3, tr') \<Rightarrow> (r, c3, tr @ tr'))))"

definition traverseRawState :: "lib \<Rightarrow> ctx \<Rightarrow> statedb \<Rightarrow> outcome \<times> event list" where
  "traverseRawState L cx db =
     (let tr0 = [EvMakeChainDatabase True, EvMakeTrieDatabase] in
      case readHeadBlock db of
        None \<Rightarrow>
          (Return (Some (Err ''no head block'')), tr0 @ [Log LvError ''Failed to load head block'' []])
      | Some headBlock \<Rightarrow>
          (case chooseRoot L cx headBlock of
             Inl (err, lg) \<Rightarrow> (Return (Some err), tr0 @ lg)
           | Inr (root, lg) \<Rightarrow>
               (let tr1 = tr0 @ lg @ [EvNewStateTrie (StateTrieID root)] in
                case newStateTrie db (StateTrieID root) of
                  Inl err \<Rightarrow>
                    (Return (Some (Ext err)),
                     tr1 @ [Log LvError ''Failed to open trie''
                              [(''root'', VHash root), (''err'', VErr (Ext err))]])
                | Inr t \<Rightarrow>
                    (case nodeIterator t of
                       Inl err \<Rightarrow>
                         (Return (Some (Ext err)),
                          tr1 @ [Log LvError ''Failed to open iterator''
                                   [(''root'', VHash root), (''err'', VErr (Ext err))]])
                     | Inr accIter \<Rightarrow>
                         (let tr2 = tr1 @ [EvNodeReader root] in
                          case nodeReader db root of
                            Inl err \<Rightarrow>
                              (Return None,
                               tr2 @ [Log LvError ''State is non-existent'' [(''root'', VHash root)]])
                          | Inr rd \<Rightarrow>
                              (case rawAccountLoop L db rd root (itNodes accIter) noCounts of
                                 (Some e, c, tr) \<Rightarrow> (Return (Some e), tr2 @ tr)
                               | (None, c, tr) \<Rightarrow>
                                   (case itErr accIter of
                                      Some err \<Rightarrow>
                                        (Return (Some (Ext err)),
                                         tr2 @ tr @ [Log LvError ''Failed to traverse state trie''
                                                       [(''root'', VHash root), (''err'', VErr (Ext err))]])
                                    | None \<Rightarrow>
                                        (Return None,
                                         tr2 @ tr @ [Log LvInfo ''State is complete''
                                                       [(''nodes'', VNum (cNodes c)),
                                                        (''accounts'', VNum (cAccounts c)),
                                                        (''slots'', VNum (cSlots c)),
                                                        (''codes'', VNum (cCodes c))]]))))))))"

subsection \<open>hbss-to-pbss\<close>

text \<open>
  The persistent state ID is read twice from the state store: when the command starts,
  and again after the conversion phase. \<open>h2p.Run()\<close> returns nothing; what it leaves as
  the persistent state ID is \<open>runStateID\<close> of the ID it found. \<open>readHeader\<close> is the
  \<open>Root\<close> of the header read, or \<open>None\<close> when \<open>rawdb.ReadHeader\<close> returns nil.
\<close>

record h2pdb =
  parseUint :: "string \<Rightarrow> string + 64 word"
  readPersistentStateID :: "64 word"
  runStateID :: "64 word \<Rightarrow> 64 word"
  readHeadHeaderHash :: hash
  readHeaderNumber :: "hash \<Rightarrow> 64 word option"
  readCanonicalHash :: "64 word \<Rightarrow> hash"
  readHeader :: "hash \<Rightarrow> 64 word \<Rightarrow> hash option"
  trieNew :: "trieID \<Rightarrow> string option"
  newHbss2Pbss :: "hash \<Rightarrow> 64 word \<Rightarrow> 64 word \<Rightarrow> string option"
  hasSeparateStateStore :: bool
  resolvePath :: "string \<Rightarrow> string"
  resolveAncient :: "string \<Rightarrow> string \<Rightarrow> string"
  joinPath :: "string \<Rightarrow> string \<Rightarrow> string"
  resetStateFreezerTableOffset :: "string \<Rightarrow> 64 word \<Rightarrow> string option"
  pruneHashTrieNodeInDataBase :: "string option"

definition MaxUint64 :: "64 word" where
  "MaxUint64 = - 1"

text \<open>
  The body of \<open>if lastStateID == 0 || force\<close>: \<open>Inl\<close> is a return from the command,
  \<open>Inr\<close> falls through to the code after the conditional.
\<close>

definition convert :: "h2pdb \<Rightarrow> 64 word \<Rightarrow> (outcome \<times> event list) + event list" where
  "convert db jobnum =
     (let tr0 = [Log LvInfo ''hbss2pbss triedb'' []];
          headerHash = readHeadHeaderHash db in
      case readHeaderNumber db headerHash of
        None \<Rightarrow>
          Inl (Return (Some (Err ''read header number failed'')),
               tr0 @ [Log LvError ''read header number failed.'' []])
      | Some blockNumber \<Rightarrow>
          (let tr1 = tr0 @ [Log LvInfo ''hbss2pbss converting''
                              [(''HeaderHash: '', VHash headerHash), ('', blockNumber: '', VNum blockNumber)]];
               headerBlockHash = readCanonicalHash db blockNumber in
           if blockNumber \<noteq> MaxUint64 \<and> headerBlockHash = zeroHash then
             Inl (Return (Some (Err ''ReadHeadBlockHash empty hash'')), tr1)
           else if blockNumber \<noteq> MaxUint64 \<and> readHeader db headerBlockHash blockNumber = None then
             Inl (Panic, tr1)
           else
             (let trieRootHash =
                    (if blockNumber \<noteq> MaxUint64
                     then (case readHeader db headerBlockHash blockNumber of
                             Some r \<Rightarrow> r | None \<Rightarrow> zeroHash)
                     else zeroHash);
                  tr2 = tr1 @ (if blockNumber \<noteq> MaxUint64 then [Println ''Canonical Hash: ''] else []) in
              if trieRootHash = zeroHash then
                Inl (Return (Some (Err ''Empty root hash.'')), tr2 @ [Log LvError ''Empty root hash'' []])
              else
                (let id = StateTrieID trieRootHash;
                     tr3 = tr2 @ [EvTrieNew id] in
                 case trieNew db id of
                   Some err \<Rightarrow>
                     Inl (Return (Some (Ext err)),
                          tr3 @ [Log LvError ''fail to new trie tree'' [(''err'', VErr (Ext err))]])
                 | None \<Rightarrow>
                     (let tr4 = tr3 @ [EvNewHbss2Pbss trieRootHash blockNumber jobnum] in
                      case newHbss2Pbss db trieRootHash blockNumber jobnum of
                        Some err \<Rightarrow>
                          Inl (Return (Some (Ext err)),
                               tr4 @ [Log LvError ''fail to new hash2pbss'' [(''err'', VErr (Ext err))]])
                      | None \<Rightarrow> Inr (tr4 @ [EvRun]))))))"

definition ancientDir :: "ctx \<Rightarrow> h2pdb \<Rightarrow> string" where
  "ancientDir cx db =
     (if hasSeparateStateStore db then
        joinPath db (joinPath db (resolvePath db ''chaindata'') ''state'') ''ancient''
      else resolveAncient db ''chaindata'' (ancientFlag cx))"

text \<open>
  The code after the conditional, from the second read of the persistent state ID
  (\<open>lastStateID\<close> is what that read returns) to the end of the command.
\<close>

definition reconcile :: "ctx \<Rightarrow> h2pdb \<Rightarrow> 64 word \<Rightarrow> outcome \<times> event list" where
  "reconcile cx db lastStateID =
     (let tr0 = (if lastStateID = 0
                 then [Log LvError ''Convert hbss to pbss trie node error. The last state id is still 0'' []]
                 else []);
          ancient = ancientDir cx db;
          tr1 = tr0 @ [EvResetStateFreezerTableOffset ancient lastStateID] in
      case resetStateFreezerTableOffset db ancient lastStateID of
        Some err \<Rightarrow>
          (Return (Some (Ext err)),
           tr1 @ [Log LvError ''Reset state freezer table offset failed'' [(''error'', VErr (Ext err))]])
      | None \<Rightarrow>
          (let tr2 = tr1 @ [EvPruneHashTrieNodeInDataBase] in
           case pruneHashTrieNodeInDataBase db of
             Some err \<Rightarrow>
               (Return (Some (Ext err)),
                tr2 @ [Log LvError ''Prune Hash trie node in database failed'' [(''error'', VErr (Ext err))]])
           | None \<Rightarrow> (Return None, tr2)))"

definition hbss2pbss :: "ctx \<Rightarrow> h2pdb \<Rightarrow> outcome \<times> event list" where
  "hbss2pbss cx db =
     (if NArg cx > 1 then
        (Return (Some (Err ''required arguments: <jobnum (optional)>'')), [])
      else
        case (if NArg cx = 1 then parseUint db (first cx) else Inr 1000) of
          Inl err \<Rightarrow>
            (Return (Some (Err (''failed to Parse jobnum, Args[1]: , err: '' @ err))), [])
        | Inr jobnum \<Rightarrow>
            (let tr0 = [EvMakeChainDatabase False, EvSyncAncient];
                 lastStateID = readPersistentStateID db in
             if lastStateID = 0 \<or> forceFlag cx then
               (case convert db jobnum of
                  Inl (out, tr) \<Rightarrow> (out, tr0 @ tr)
                | Inr tr \<Rightarrow>
                    (case reconcile cx db (runStateID db lastStateID) of
                       (out, tr') \<Rightarrow> (out, tr0 @ tr @ tr'))
               )
             else
               (case reconcile cx db lastStateID of
                  (out, tr') \<Rightarrow>
                    (out, tr0 @ [Log LvInfo ''Convert hbss to pbss success. Nothing to do.'' []] @ tr'))))"

text \<open>The value of \<open>lastStateID\<close> after the second read (line 1306).\<close>

definition lastStateID :: "ctx \<Rightarrow> h2pdb \<Rightarrow> 64 word" where
  "lastStateID cx db =
     (if readPersistentStateID db = 0 \<or> forceFlag cx
      then runStateID db (readPersistentStateID db)
      else readPersistentStateID db)"

text \<open>
  The command reaches the code after the conditional (line 1306 onwards) when the argument
  checks pass and the conversion phase, if it is entered, does not return.
\<close>

definition reachesCompletion :: "ctx \<Rightarrow> h2pdb \<Rightarrow> bool" where
  "reachesCompletion cx db =
     (NArg cx \<le> 1 \<and>
      (case (if NArg cx = 1 then parseUint db (first cx) else Inr 1000) of
         Inl _ \<Rightarrow> False
       | Inr jobnum \<Rightarrow>
           (if readPersistentStateID db = 0 \<or> forceFlag cx
            then (case convert db jobnum of Inl _ \<Rightarrow> False | Inr _ \<Rightarrow> True)
            else True)))"

subsection \<open>What the traversals check, in the words of the specification\<close>

text \<open>
  Account level: a storage trie resolves when it opens, its iterator opens and the walk
  ends without an error; an account is sound when its record decodes, its storage trie
  (if the storage root is not the empty root) resolves, and its code (if the code hash is
  not the empty code hash) is in the store.
\<close>

definition storageResolves :: "lib \<Rightarrow> statedb \<Rightarrow> trieID \<Rightarrow> bool" where
  "storageResolves L db t =
     (case newStateTrie db t of
        Inl _ \<Rightarrow> False
      | Inr storageTrie \<Rightarrow>
          (case nodeIterator storageTrie of
             Inl _ \<Rightarrow> False
           | Inr storageIt \<Rightarrow> kvErr (newIterator L storageIt) = None))"

definition accountSound :: "lib \<Rightarrow> statedb \<Rightarrow> hash \<Rightarrow> bytes \<times> bytes \<Rightarrow> bool" where
  "accountSound L db root kv =
     (case decodeAccount L (snd kv) of
        Inl _ \<Rightarrow> False
      | Inr acc \<Rightarrow>
          (accRoot acc \<noteq> emptyRootHash L \<longrightarrow>
             storageResolves L db (StorageTrieID root (bytesToHash L (fst kv)) (accRoot acc)))
          \<and> (accCodeHash acc \<noteq> emptyCodeHash L \<longrightarrow> hasCode db (bytesToHash L (accCodeHash acc))))"

text \<open>
  Node level: a node that has a hash of its own is verified when the bytes stored under
  its reference are there and their digest is that hash. \<open>storageNodes\<close> are the nodes
  of the storage trie walked below a position of the account trie.
\<close>

definition nodeVerified :: "lib \<Rightarrow> reader \<Rightarrow> hash \<Rightarrow> node \<Rightarrow> bool" where
  "nodeVerified L rd owner n =
     (nHash n \<noteq> zeroHash \<longrightarrow>
        fst (rd owner (nPath n) (nHash n)) \<noteq> []
        \<and> keccak256 L (fst (rd owner (nPath n) (nHash n))) = nHash n)"

definition storageNodes :: "lib \<Rightarrow> statedb \<Rightarrow> hash \<Rightarrow> node \<Rightarrow> node list" where
  "storageNodes L db root n =
     (if nLeaf n then
        (case decodeAccount L (nLeafBlob n) of
           Inl _ \<Rightarrow> []
         | Inr acc \<Rightarrow>
             if accRoot acc \<noteq> emptyRootHash L then
               (case newStateTrie db (StorageTrieID root (bytesToHash L (nLeafKey n)) (accRoot acc)) of
                  Inl _ \<Rightarrow> []
                | Inr storageTrie \<Rightarrow>
                    (case nodeIterator storageTrie of
                       Inl _ \<Rightarrow> []
                     | Inr storageIter \<Rightarrow> itNodes storageIter))
             else [])
      else [])"

text \<open>What the traversal returns and logs at a node that fails the check.\<close>

definition nodeFailure :: "lib \<Rightarrow> reader \<Rightarrow> hash \<Rightarrow> node \<Rightarrow> string \<Rightarrow> error \<times> event" where
  "nodeFailure L rd owner n kind =
     (let blob = fst (rd owner (nPath n) (nHash n)) in
      if blob = [] then
        (Err (''missing '' @ kind),
         Log LvError (''Missing trie node('' @ kind @ '')'') [(''hash'', VHash (nHash n))])
      else
        (Err (''invalid '' @ kind @ '' node''),
         Log LvError (''Invalid trie node('' @ kind @ '')'')
           [(''hash'', VHash (nHash n)), (''value'', VBytes blob)]))"

subsection \<open>Reading a trace\<close>

text \<open>The state root a trie is opened under.\<close>

fun stateRootOf :: "trieID \<Rightarrow> hash" where
  "stateRootOf (StateTrieID r) = r"
| "stateRootOf (StorageTrieID s _ _) = s"

text \<open>\<open>walks r ev\<close>: if the event opens or verifies state, it is the state of root \<open>r\<close>.\<close>

fun walks :: "hash \<Rightarrow> event \<Rightarrow> bool" where
  "walks r (EvNewStateTrie t) = (stateRootOf t = r)"
| "walks r (EvNodeReader x) = (x = r)"
| "walks r (EvVerify x) = (x = r)"
| "walks r _ = True"

text \<open>The events of a traversal, and those that open a trie or the snapshot tree.\<close>

fun traversal :: "event \<Rightarrow> bool" where
  "traversal (EvNewStateTrie _) = True"
| "traversal (EvNodeReader _) = True"
| "traversal (EvVerify _) = True"
| "traversal EvCheckDanglingStorage = True"
| "traversal _ = False"

fun opensStore :: "event \<Rightarrow> bool" where
  "opensStore (EvSnapshotNew _) = True"
| "opensStore ev = traversal ev"

section \<open>Sample runs\<close>

text \<open>Concrete command lines and stores, on which the theorems below are exercised.\<close>

definition noArgs :: ctx where
  "noArgs = \<lparr>args = [], forceFlag = False, ancientFlag = []\<rparr>"

definition eightJobs :: ctx where
  "eightJobs = \<lparr>args = [''8''], forceFlag = False, ancientFlag = []\<rparr>"

text \<open>
  Stand-ins for the library functions: roots are written \<open>0x01\<close>, an account is encoded
  as the two bytes that fill its storage root and its code hash, the digest of a blob is
  32 copies of the sum of its bytes.
\<close>

definition sampleLib :: lib where
  "sampleLib =
     \<lparr>unmarshalText = (\<lambda>s. if s = ''0x01'' then Inr (replicate 32 1) else Inl ''invalid hex string''),
      emptyRootHash = replicate 32 86,
      emptyCodeHash = replicate 32 197,
      decodeAccount =
        (\<lambda>b. case b of
               [r, c] \<Rightarrow> Inr \<lparr>accNonce = 0, accBalance = 0,
                               accRoot = replicate 32 r, accCodeHash = replicate 32 c\<rparr>
             | _ \<Rightarrow> Inl ''rlp: unexpected input''),
      keccak256 = (\<lambda>b. replicate 32 (sum_list b)),
      bytesToHash = (\<lambda>b. replicate (32 - length b) 0 @ drop (length b - 32) b),
      newIterator =
        (\<lambda>it. \<lparr>kvEntries = map (\<lambda>n. (nLeafKey n, nLeafBlob n)) (filter nLeaf (itNodes it)),
                kvErr = itErr it\<rparr>)\<rparr>"

definition pathStore :: prunedb where
  "pathStore = \<lparr>readStateScheme = ''path'', newPruner = None, prune = (\<lambda>_. None)\<rparr>"

text \<open>
  A hash-scheme store that has never been converted (persistent state ID 0) and whose
  conversion leaves the ID where it was.
\<close>

definition freshStore :: h2pdb where
  "freshStore =
     \<lparr>parseUint = (\<lambda>s. if s = ''8'' then Inr 8 else Inl ''invalid syntax''),
      readPersistentStateID = 0,
      runStateID = (\<lambda>i. i),
      readHeadHeaderHash = replicate 32 7,
      readHeaderNumber = (\<lambda>_. Some 100),
      readCanonicalHash = (\<lambda>_. replicate 32 7),
      readHeader = (\<lambda>_ _. Some (replicate 32 9)),
      trieNew = (\<lambda>_. None),
      newHbss2Pbss = (\<lambda>_ _ _. None),
      hasSeparateStateStore = False,
      resolvePath = (\<lambda>p. ''/data/'' @ p),
      resolveAncient = (\<lambda>n a. if a = [] then ''/data/'' @ n @ ''/ancient'' else a),
      joinPath = (\<lambda>a b. a @ ''/'' @ b),
      resetStateFreezerTableOffset = (\<lambda>_ _. None),
      pruneHashTrieNodeInDataBase = None\<rparr>"

text \<open>A store already converted up to state 5.\<close>

definition convertedStore :: h2pdb where
  "convertedStore = freshStore\<lparr>readPersistentStateID := 5\<rparr>"

text \<open>The same, with a freezer whose offset cannot be reset.\<close>

definition lockedFreezer :: h2pdb where
  "lockedFreezer = convertedStore\<lparr>resetStateFreezerTableOffset := (\<lambda>_ _. Some ''permission denied'')\<rparr>"

text \<open>
  A store that has never been converted and whose conversion produces state 1, and one
  whose head header number cannot be read.
\<close>

definition convertingStore :: h2pdb where
  "convertingStore = freshStore\<lparr>runStateID := (\<lambda>i. i + 1)\<rparr>"

definition headerless :: h2pdb where
  "headerless = freshStore\<lparr>readHeaderNumber := (\<lambda>_. None)\<rparr>"

text \<open>
  A state of one account: the account trie has a root node and one leaf, the account has
  code and a storage trie of a root node and one slot. Leaves are values embedded in
  their parent, so the iterator shows them with the zero hash.
\<close>

definition sampleStorage :: nodeIter where
  "sampleStorage =
     \<lparr>itNodes = [\<lparr>nHash = replicate 32 4, nPath = [], nLeaf = False, nLeafKey = [], nLeafBlob = []\<rparr>,
                 \<lparr>nHash = zeroHash, nPath = [1], nLeaf = True, nLeafKey = [1], nLeafBlob = [9]\<rparr>],
      itErr = None\<rparr>"

definition sampleAccounts :: nodeIter where
  "sampleAccounts =
     \<lparr>itNodes = [\<lparr>nHash = replicate 32 1, nPath = [], nLeaf = False, nLeafKey = [], nLeafBlob = []\<rparr>,
                 \<lparr>nHash = zeroHash, nPath = [10], nLeaf = True, nLeafKey = [170], nLeafBlob = [4, 7]\<rparr>],
      itErr = None\<rparr>"

definition sampleReader :: reader where
  "sampleReader owner path h =
     (if h = replicate 32 1 then ([1], None)
      else if h = replicate 32 4 then ([4], None)
      else ([], Some ''not found''))"

definition sampleState :: statedb where
  "sampleState =
     \<lparr>readHeadBlock = Some \<lparr>blockRoot = replicate 32 1, blockNumberU64 = 100\<rparr>,
      snapshotNew = (\<lambda>_. None),
      verify = (\<lambda>r. if r = replicate 32 1 then None else Some ''missing trie node''),
      checkDanglingStorage = None,
      newStateTrie =
        (\<lambda>t. case t of
                StateTrieID r \<Rightarrow>
                  if r = replicate 32 1 then Inr \<lparr>nodeIterator = Inr sampleAccounts\<rparr>
                  else Inl ''missing trie node''
              | StorageTrieID s ow r \<Rightarrow>
                  if r = replicate 32 4 then Inr \<lparr>nodeIterator = Inr sampleStorage\<rparr>
                  else Inl ''missing trie node''),
      nodeReader = (\<lambda>r. if r = replicate 32 1 then Inr sampleReader else Inl ''state is not available''),
      hasCode = (\<lambda>h. h = replicate 32 7)\<rparr>"

definition noHead :: statedb where
  "noHead = sampleState\<lparr>readHeadBlock := None\<rparr>"

definition unverifiable :: statedb where
  "unverifiable = sampleState\<lparr>verify := (\<lambda>_. Some ''missing trie node'')\<rparr>"

definition rootArg :: ctx where
  "rootArg = \<lparr>args = [''0x01''], forceFlag = False, ancientFlag = []\<rparr>"

definition badRootArg :: ctx where
  "badRootArg = \<lparr>args = [''0x0g''], forceFlag = False, ancientFlag = []\<rparr>"

text \<open>Stores whose node reader cannot be opened: the sample state, and an empty head state.\<close>

definition unreadable :: statedb where
  "unreadable = sampleState\<lparr>nodeReader := (\<lambda>_. Inl ''state is not available'')\<rparr>"

definition emptyHead :: statedb where
  "emptyHead =
     sampleState
       \<lparr>readHeadBlock := Some \<lparr>blockRoot = replicate 32 86, blockNumberU64 = 0\<rparr>,
        newStateTrie :=
          (\<lambda>t. if t = StateTrieID (replicate 32 86)
               then Inr \<lparr>nodeIterator = Inr \<lparr>itNodes = [], itErr = None\<rparr>\<rparr>
               else Inl ''missing trie node''),
        nodeReader := (\<lambda>_. Inl ''state is not available'')\<rparr>"

text \<open>
  The sample state with its code missing, with the stored root node of the storage trie
  altered, and with the stored root node of the account trie missing.
\<close>

definition codeless :: statedb where
  "codeless = sampleState\<lparr>hasCode := (\<lambda>_. False)\<rparr>"

definition flipped :: statedb where
  "flipped =
     sampleState\<lparr>nodeReader :=
       (\<lambda>_. Inr (\<lambda>owner path h. if h = replicate 32 4 then ([5], None) else sampleReader owner path h))\<rparr>"

definition rootless :: statedb where
  "rootless =
     sampleState\<lparr>nodeReader :=
       (\<lambda>_. Inr (\<lambda>owner path h. if h = replicate 32 1 then ([], Some ''not found'')
                               else sampleReader owner path h))\<rparr>"

text \<open>A genesis file, a configuration file naming another genesis, and a node store.\<close>

definition files :: alldb where
  "files =
     \<lparr>openFile = (\<lambda>p. if p = ''genesis.json'' then Inr [1]
                      else if p = ''config.toml'' then Inr [2] else Inl ''no such file''),
      decodeGenesis = (\<lambda>b. if b = [1] then Inr (Genesis ''mainnet'') else Inl ''invalid character''),
      loadConfig = (\<lambda>p. if p = ''config.toml'' then Inr (Some (Genesis ''testnet'')) else Inl ''bad config''),
      newAllPruner = None,
      pruneAllErr = (\<lambda>_. None),
      genesisNodes = (\<lambda>g. if g = Some (Genesis ''mainnet'') then [[1], [2]] else [[3]]),
      isTrieKey = (\<lambda>k. length k = 1)\<rparr>"

definition nodeStore :: "bytes list" where
  "nodeStore = [[1], [2], [3], [4], [9, 9]]"

definition genesisArg :: ctx where
  "genesisArg = \<lparr>args = [''genesis.json''], forceFlag = False, ancientFlag = []\<rparr>"

definition configArg :: ctx where
  "configArg = \<lparr>args = [''config.toml''], forceFlag = False, ancientFlag = []\<rparr>"

section \<open>Theorems\<close>

text \<open>
  C3. prune-state requires the hash scheme: whenever the stored state scheme is not the
  hash scheme the command ends with a non-zero exit, having reported the mismatch at
  critical level, before the pruner is constructed and without any mutation of the store.
\<close>

theorem pruneState_scheme_mismatch:
  "readStateScheme db \<noteq> HashScheme \<Longrightarrow>
     pruneState L cx db =
       (Exit 1, [EvMakeChainDatabase False,
                 Log LvCrit ''Offline pruning is not required for path scheme'' []])
     \<and> EvNewPruner \<notin> set (snd (pruneState L cx db))
     \<and> \<not> list_ex mutation (snd (pruneState L cx db))"
  by (simp add: pruneState_def)

theorem pruneState_scheme_mismatch_witness:
  "readStateScheme pathStore \<noteq> HashScheme
   \<and> pruneState sampleLib noArgs pathStore =
       (Exit 1, [EvMakeChainDatabase False,
                 Log LvCrit ''Offline pruning is not required for path scheme'' []])
   \<and> EvNewPruner \<notin> set (snd (pruneState sampleLib noArgs pathStore))
   \<and> \<not> list_ex mutation (snd (pruneState sampleLib noArgs pathStore))"
proof -
  have h: "readStateScheme pathStore \<noteq> HashScheme"
    by (simp add: pathStore_def HashScheme_def)
  from pruneState_scheme_mismatch [OF h, of sampleLib noArgs] h show ?thesis by simp
qed

subsection \<open>hbss-to-pbss: the conversion phase and the completion phase\<close>

lemma convert_Inl: "convert db j = Inl (out, tr) \<Longrightarrow> \<forall>ev \<in> set tr. \<not> mutation ev"
  by (auto simp: convert_def Let_def split: option.splits if_splits)

lemma convert_Inr: "convert db j = Inr tr \<Longrightarrow> \<forall>ev \<in> set tr. \<not> mutation ev \<or> ev = EvRun"
  by (auto simp: convert_def Let_def split: option.splits if_splits)

lemma reconcile_ok:
  assumes ok: "resetStateFreezerTableOffset db (ancientDir cx db) i = None"
  shows "\<exists>lg post. snd (reconcile cx db i) =
       lg @ [EvResetStateFreezerTableOffset (ancientDir cx db) i, EvPruneHashTrieNodeInDataBase] @ post
     \<and> (\<forall>ev \<in> set lg. \<not> mutation ev) \<and> (\<forall>ev \<in> set post. \<not> mutation ev)
     \<and> fst (reconcile cx db i) = Return (map_option Ext (pruneHashTrieNodeInDataBase db))"
proof (cases "pruneHashTrieNodeInDataBase db")
  case None
  with ok show ?thesis
    apply (rule_tac x = "if i = 0 then [Log LvError ''Convert hbss to pbss trie node error. The last state id is still 0'' []] else []" in exI)
    apply (rule_tac x = "[]" in exI)
    by (simp add: reconcile_def)
next
  case (Some e)
  with ok show ?thesis
    apply (rule_tac x = "if i = 0 then [Log LvError ''Convert hbss to pbss trie node error. The last state id is still 0'' []] else []" in exI)
    apply (rule_tac x = "[Log LvError ''Prune Hash trie node in database failed'' [(''error'', VErr (Ext e))]]" in exI)
    by (simp add: reconcile_def)
qed

lemma reconcile_fail:
  "resetStateFreezerTableOffset db (ancientDir cx db) i = Some e \<Longrightarrow>
   fst (reconcile cx db i) = Return (Some (Ext e)) \<and>
   EvPruneHashTrieNodeInDataBase \<notin> set (snd (reconcile cx db i))"
  by (simp add: reconcile_def)

text \<open>
  A run either returns before the completion phase, having changed nothing, or is the
  completion phase run on the state ID of the second read, after a prefix whose only
  possible change is the conversion itself.
\<close>

lemma hbss2pbss_cases:
  "(\<forall>ev \<in> set (snd (hbss2pbss cx db)). \<not> mutation ev) \<or>
   (\<exists>pre. hbss2pbss cx db =
        (fst (reconcile cx db (lastStateID cx db)), pre @ snd (reconcile cx db (lastStateID cx db)))
      \<and> (\<forall>ev \<in> set pre. \<not> mutation ev \<or> ev = EvRun))"
proof (cases "NArg cx > 1")
  case True
  then show ?thesis by (simp add: hbss2pbss_def)
next
  case False
  show ?thesis
  proof (cases "if NArg cx = 1 then parseUint db (first cx) else Inr 1000")
    case (Inl e)
    with False show ?thesis by (simp add: hbss2pbss_def)
  next
    case (Inr j)
    show ?thesis
    proof (cases "readPersistentStateID db = 0 \<or> forceFlag cx")
      case conv: True
      show ?thesis
      proof (cases "convert db j")
        case (Inl p)
        obtain out tr where p: "p = (out, tr)" by (cases p)
        from convert_Inl[of db j out tr] Inl p have "\<forall>ev \<in> set tr. \<not> mutation ev" by simp
        with False Inr conv Inl p show ?thesis by (simp add: hbss2pbss_def Let_def)
      next
        case r: (Inr tr)
        from convert_Inr[OF r] have m: "\<forall>ev \<in> set tr. \<not> mutation ev \<or> ev = EvRun" .
        have "hbss2pbss cx db = (fst (reconcile cx db (lastStateID cx db)),
               ([EvMakeChainDatabase False, EvSyncAncient] @ tr) @ snd (reconcile cx db (lastStateID cx db)))"
          using False Inr conv r by (simp add: hbss2pbss_def Let_def lastStateID_def split: prod.splits)
        moreover have "\<forall>ev \<in> set ([EvMakeChainDatabase False, EvSyncAncient] @ tr). \<not> mutation ev \<or> ev = EvRun"
          using m by simp
        ultimately show ?thesis by blast
      qed
    next
      case skip: False
      have "hbss2pbss cx db = (fst (reconcile cx db (lastStateID cx db)),
               [EvMakeChainDatabase False, EvSyncAncient,
                Log LvInfo ''Convert hbss to pbss success. Nothing to do.'' []]
                @ snd (reconcile cx db (lastStateID cx db)))"
        using False Inr skip by (simp add: hbss2pbss_def Let_def lastStateID_def split: prod.splits)
      moreover have "\<forall>ev \<in> set [EvMakeChainDatabase False, EvSyncAncient,
                Log LvInfo ''Convert hbss to pbss success. Nothing to do.'' []]. \<not> mutation ev \<or> ev = EvRun"
        by simp
      ultimately show ?thesis by blast
    qed
  qed
qed

lemma mutation_free:
  "\<forall>ev \<in> set tr. \<not> mutation ev \<Longrightarrow>
   EvPruneHashTrieNodeInDataBase \<notin> set tr \<and> EvResetStateFreezerTableOffset a i \<notin> set tr"
  by auto

lemma convert_Inl_strict: "convert db j = Inl (out, tr) \<Longrightarrow> out \<noteq> Return None \<and> EvRun \<notin> set tr"
  by (auto simp: convert_def Let_def split: option.splits if_splits)

lemma convert_Inr_run: "convert db j = Inr tr \<Longrightarrow> EvRun \<in> set tr"
  by (auto simp: convert_def Let_def split: option.splits if_splits)

lemma reconcile_trace:
  "reconcile cx db i =
     (Return (case resetStateFreezerTableOffset db (ancientDir cx db) i of
                Some e \<Rightarrow> Some (Ext e)
              | None \<Rightarrow> map_option Ext (pruneHashTrieNodeInDataBase db)),
      (if i = 0
       then [Log LvError ''Convert hbss to pbss trie node error. The last state id is still 0'' []]
       else []) @
      [EvResetStateFreezerTableOffset (ancientDir cx db) i] @
      (case resetStateFreezerTableOffset db (ancientDir cx db) i of
         Some e \<Rightarrow> [Log LvError ''Reset state freezer table offset failed'' [(''error'', VErr (Ext e))]]
       | None \<Rightarrow>
           [EvPruneHashTrieNodeInDataBase] @
           (case pruneHashTrieNodeInDataBase db of
              Some e \<Rightarrow> [Log LvError ''Prune Hash trie node in database failed''
                           [(''error'', VErr (Ext e))]]
            | None \<Rightarrow> [])))"
  by (simp add: reconcile_def Let_def split: option.splits)

lemma hbss2pbss_completion:
  assumes rc: "reachesCompletion cx db"
  shows "\<exists>pre. (\<forall>ev \<in> set pre. \<not> mutation ev \<or> ev = EvRun)
      \<and> (EvRun \<in> set pre \<longleftrightarrow> readPersistentStateID db = 0 \<or> forceFlag cx)
      \<and> hbss2pbss cx db =
          (fst (reconcile cx db (lastStateID cx db)), pre @ snd (reconcile cx db (lastStateID cx db)))"
proof -
  from rc have n: "\<not> NArg cx > 1" by (simp add: reachesCompletion_def)
  from rc obtain j where j: "(if NArg cx = 1 then parseUint db (first cx) else Inr 1000) = Inr j"
    by (auto simp: reachesCompletion_def split: sum.splits)
  show ?thesis
  proof (cases "readPersistentStateID db = 0 \<or> forceFlag cx")
    case conv: True
    with rc j obtain tr where r: "convert db j = Inr tr"
      by (auto simp: reachesCompletion_def split: sum.splits)
    from convert_Inr[OF r] have m: "\<forall>ev \<in> set tr. \<not> mutation ev \<or> ev = EvRun" .
    from convert_Inr_run[OF r] have run: "EvRun \<in> set tr" .
    have "hbss2pbss cx db = (fst (reconcile cx db (lastStateID cx db)),
           ([EvMakeChainDatabase False, EvSyncAncient] @ tr) @ snd (reconcile cx db (lastStateID cx db)))"
      using n j conv r by (simp add: hbss2pbss_def Let_def lastStateID_def split: prod.splits)
    moreover have "\<forall>ev \<in> set ([EvMakeChainDatabase False, EvSyncAncient] @ tr). \<not> mutation ev \<or> ev = EvRun"
      using m by simp
    moreover have "EvRun \<in> set ([EvMakeChainDatabase False, EvSyncAncient] @ tr)
        \<longleftrightarrow> readPersistentStateID db = 0 \<or> forceFlag cx"
      using run conv by simp
    ultimately show ?thesis by (intro exI conjI)
  next
    case skip: False
    have "hbss2pbss cx db = (fst (reconcile cx db (lastStateID cx db)),
             [EvMakeChainDatabase False, EvSyncAncient,
              Log LvInfo ''Convert hbss to pbss success. Nothing to do.'' []]
              @ snd (reconcile cx db (lastStateID cx db)))"
      using n j skip by (simp add: hbss2pbss_def Let_def lastStateID_def split: prod.splits)
    moreover have "\<forall>ev \<in> set [EvMakeChainDatabase False, EvSyncAncient,
              Log LvInfo ''Convert hbss to pbss success. Nothing to do.'' []]. \<not> mutation ev \<or> ev = EvRun"
      by simp
    moreover have "EvRun \<in> set [EvMakeChainDatabase False, EvSyncAncient,
              Log LvInfo ''Convert hbss to pbss success. Nothing to do.'' []]
        \<longleftrightarrow> readPersistentStateID db = 0 \<or> forceFlag cx"
      using skip by simp
    ultimately show ?thesis by (intro exI conjI)
  qed
qed

lemma hbss2pbss_early:
  assumes nrc: "\<not> reachesCompletion cx db"
  shows "(\<forall>ev \<in> set (snd (hbss2pbss cx db)). \<not> mutation ev) \<and> fst (hbss2pbss cx db) \<noteq> Return None"
proof (cases "NArg cx > 1")
  case True
  then show ?thesis by (simp add: hbss2pbss_def)
next
  case False
  show ?thesis
  proof (cases "if NArg cx = 1 then parseUint db (first cx) else Inr 1000")
    case (Inl e)
    with False show ?thesis by (simp add: hbss2pbss_def)
  next
    case (Inr j)
    with nrc False have conv: "readPersistentStateID db = 0 \<or> forceFlag cx"
      by (auto simp: reachesCompletion_def split: if_splits)
    from nrc False Inr conv obtain p where l: "convert db j = Inl p"
      by (auto simp: reachesCompletion_def split: if_splits sum.splits)
    obtain out tr where p: "p = (out, tr)" by (cases p)
    from convert_Inl[of db j out tr] l p have "\<forall>ev \<in> set tr. \<not> mutation ev" by simp
    moreover from convert_Inl_strict[of db j out tr] l p have "out \<noteq> Return None" by simp
    ultimately show ?thesis using False Inr conv l p by (simp add: hbss2pbss_def Let_def)
  qed
qed

text \<open>
  The conversion phase runs to its end exactly when the head header number is read and
  is not \<open>math.MaxUint64\<close>, the canonical hash and the root of its header are not
  zero, and the trie and the converter are both built.
\<close>

lemma convert_falls_through:
  "(\<exists>tr. convert db j = Inr tr) \<longleftrightarrow>
   (\<exists>n r. readHeaderNumber db (readHeadHeaderHash db) = Some n \<and> n \<noteq> MaxUint64
        \<and> readCanonicalHash db n \<noteq> zeroHash
        \<and> readHeader db (readCanonicalHash db n) n = Some r \<and> r \<noteq> zeroHash
        \<and> trieNew db (StateTrieID r) = None \<and> newHbss2Pbss db r n j = None)"
  by (auto simp: convert_def Let_def split: option.splits if_splits)

text \<open>
  C6. A run of hbss-to-pbss that gets past the conversion phase (the conversion was not
  needed, or it ran to its end) then calls \<open>ResetStateFreezerTableOffset\<close> with the
  persistent state ID of the second read; if that reset succeeds, the next call is
  \<open>PruneHashTrieNodeInDataBase\<close> and its result is the result of the command; if the
  reset fails, the command logs and returns the error of the reset and deletes nothing.
  Before the reset nothing is changed but by the conversion itself, which has run exactly
  when the first read of the persistent state ID gave 0 or the force flag is set. A run
  that ends earlier (a rejected command line, or a conversion phase that returns) changes
  nothing and does not return success.
  In every run the hash-scheme nodes are deleted at most once, and only directly after a
  successful reset.
\<close>

theorem hbss2pbss_reset_before_prune:
  "(reachesCompletion cx db \<longrightarrow>
      (\<exists>pre. (\<forall>ev \<in> set pre. \<not> mutation ev \<or> ev = EvRun)
         \<and> (EvRun \<in> set pre \<longleftrightarrow> readPersistentStateID db = 0 \<or> forceFlag cx)
         \<and> hbss2pbss cx db =
             (Return (case resetStateFreezerTableOffset db (ancientDir cx db) (lastStateID cx db) of
                        Some e \<Rightarrow> Some (Ext e)
                      | None \<Rightarrow> map_option Ext (pruneHashTrieNodeInDataBase db)),
              pre @
              [EvResetStateFreezerTableOffset (ancientDir cx db) (lastStateID cx db)] @
              (case resetStateFreezerTableOffset db (ancientDir cx db) (lastStateID cx db) of
                 Some e \<Rightarrow> [Log LvError ''Reset state freezer table offset failed''
                              [(''error'', VErr (Ext e))]]
               | None \<Rightarrow>
                   [EvPruneHashTrieNodeInDataBase] @
                   (case pruneHashTrieNodeInDataBase db of
                      Some e \<Rightarrow> [Log LvError ''Prune Hash trie node in database failed''
                                   [(''error'', VErr (Ext e))]]
                    | None \<Rightarrow> [])))))
   \<and> (\<not> reachesCompletion cx db \<longrightarrow>
        (\<forall>ev \<in> set (snd (hbss2pbss cx db)). \<not> mutation ev) \<and> fst (hbss2pbss cx db) \<noteq> Return None)
   \<and> (EvPruneHashTrieNodeInDataBase \<in> set (snd (hbss2pbss cx db)) \<longrightarrow>
      resetStateFreezerTableOffset db (ancientDir cx db) (lastStateID cx db) = None \<and>
      (\<exists>pre post. snd (hbss2pbss cx db) =
          pre @ [EvResetStateFreezerTableOffset (ancientDir cx db) (lastStateID cx db),
                 EvPruneHashTrieNodeInDataBase] @ post
        \<and> EvPruneHashTrieNodeInDataBase \<notin> set pre \<and> EvPruneHashTrieNodeInDataBase \<notin> set post))
   \<and> (\<forall>e. resetStateFreezerTableOffset db (ancientDir cx db) (lastStateID cx db) = Some e \<longrightarrow>
        EvPruneHashTrieNodeInDataBase \<notin> set (snd (hbss2pbss cx db)) \<and>
        (EvResetStateFreezerTableOffset (ancientDir cx db) (lastStateID cx db)
            \<in> set (snd (hbss2pbss cx db)) \<longrightarrow>
           fst (hbss2pbss cx db) = Return (Some (Ext e))))"
proof -
  let ?i = "lastStateID cx db" and ?a = "ancientDir cx db"
  let ?P = "EvPruneHashTrieNodeInDataBase"
  let ?zero = "if ?i = 0
       then [Log LvError ''Convert hbss to pbss trie node error. The last state id is still 0'' []]
       else []"
  have live: "reachesCompletion cx db \<longrightarrow>
      (\<exists>pre. (\<forall>ev \<in> set pre. \<not> mutation ev \<or> ev = EvRun)
         \<and> (EvRun \<in> set pre \<longleftrightarrow> readPersistentStateID db = 0 \<or> forceFlag cx)
         \<and> hbss2pbss cx db =
             (Return (case resetStateFreezerTableOffset db ?a ?i of
                        Some e \<Rightarrow> Some (Ext e)
                      | None \<Rightarrow> map_option Ext (pruneHashTrieNodeInDataBase db)),
              pre @
              [EvResetStateFreezerTableOffset ?a ?i] @
              (case resetStateFreezerTableOffset db ?a ?i of
                 Some e \<Rightarrow> [Log LvError ''Reset state freezer table offset failed''
                              [(''error'', VErr (Ext e))]]
               | None \<Rightarrow>
                   [?P] @
                   (case pruneHashTrieNodeInDataBase db of
                      Some e \<Rightarrow> [Log LvError ''Prune Hash trie node in database failed''
                                   [(''error'', VErr (Ext e))]]
                    | None \<Rightarrow> []))))"
  proof
    assume rc: "reachesCompletion cx db"
    from hbss2pbss_completion[OF rc] obtain pre where
      m: "\<forall>ev \<in> set pre. \<not> mutation ev \<or> ev = EvRun"
      and run: "EvRun \<in> set pre \<longleftrightarrow> readPersistentStateID db = 0 \<or> forceFlag cx"
      and h: "hbss2pbss cx db = (fst (reconcile cx db ?i), pre @ snd (reconcile cx db ?i))"
      by blast
    have m': "\<forall>ev \<in> set (pre @ ?zero). \<not> mutation ev \<or> ev = EvRun" using m by auto
    have run': "EvRun \<in> set (pre @ ?zero) \<longleftrightarrow> readPersistentStateID db = 0 \<or> forceFlag cx"
      using run by auto
    have h': "hbss2pbss cx db =
             (Return (case resetStateFreezerTableOffset db ?a ?i of
                        Some e \<Rightarrow> Some (Ext e)
                      | None \<Rightarrow> map_option Ext (pruneHashTrieNodeInDataBase db)),
              (pre @ ?zero) @
              [EvResetStateFreezerTableOffset ?a ?i] @
              (case resetStateFreezerTableOffset db ?a ?i of
                 Some e \<Rightarrow> [Log LvError ''Reset state freezer table offset failed''
                              [(''error'', VErr (Ext e))]]
               | None \<Rightarrow>
                   [?P] @
                   (case pruneHashTrieNodeInDataBase db of
                      Some e \<Rightarrow> [Log LvError ''Prune Hash trie node in database failed''
                                   [(''error'', VErr (Ext e))]]
                    | None \<Rightarrow> [])))"
      unfolding h by (simp add: reconcile_trace)
    from m' run' h' show "\<exists>pre. (\<forall>ev \<in> set pre. \<not> mutation ev \<or> ev = EvRun)
         \<and> (EvRun \<in> set pre \<longleftrightarrow> readPersistentStateID db = 0 \<or> forceFlag cx)
         \<and> hbss2pbss cx db =
             (Return (case resetStateFreezerTableOffset db ?a ?i of
                        Some e \<Rightarrow> Some (Ext e)
                      | None \<Rightarrow> map_option Ext (pruneHashTrieNodeInDataBase db)),
              pre @
              [EvResetStateFreezerTableOffset ?a ?i] @
              (case resetStateFreezerTableOffset db ?a ?i of
                 Some e \<Rightarrow> [Log LvError ''Reset state freezer table offset failed''
                              [(''error'', VErr (Ext e))]]
               | None \<Rightarrow>
                   [?P] @
                   (case pruneHashTrieNodeInDataBase db of
                      Some e \<Rightarrow> [Log LvError ''Prune Hash trie node in database failed''
                                   [(''error'', VErr (Ext e))]]
                    | None \<Rightarrow> [])))"
      by (intro exI conjI)
  qed
  have early: "\<not> reachesCompletion cx db \<longrightarrow>
        (\<forall>ev \<in> set (snd (hbss2pbss cx db)). \<not> mutation ev) \<and> fst (hbss2pbss cx db) \<noteq> Return None"
    using hbss2pbss_early[of cx db] by blast
  have safe: "(?P \<in> set (snd (hbss2pbss cx db)) \<longrightarrow>
      resetStateFreezerTableOffset db ?a ?i = None \<and>
      (\<exists>pre post. snd (hbss2pbss cx db) =
          pre @ [EvResetStateFreezerTableOffset ?a ?i, ?P] @ post
        \<and> ?P \<notin> set pre \<and> ?P \<notin> set post))
   \<and> (\<forall>e. resetStateFreezerTableOffset db ?a ?i = Some e \<longrightarrow>
        ?P \<notin> set (snd (hbss2pbss cx db)) \<and>
        (EvResetStateFreezerTableOffset ?a ?i \<in> set (snd (hbss2pbss cx db)) \<longrightarrow>
           fst (hbss2pbss cx db) = Return (Some (Ext e))))"
  proof -
    from hbss2pbss_cases[of cx db] consider
      (early) "\<forall>ev \<in> set (snd (hbss2pbss cx db)). \<not> mutation ev"
    | (late) pre where "hbss2pbss cx db = (fst (reconcile cx db ?i), pre @ snd (reconcile cx db ?i))"
        and "\<forall>ev \<in> set pre. \<not> mutation ev \<or> ev = EvRun"
      by blast
    then show ?thesis
    proof cases
      case early
      from mutation_free[OF early] show ?thesis by simp
    next
      case late
      have pre: "?P \<notin> set pre" using late(2) by auto
      show ?thesis
      proof (cases "resetStateFreezerTableOffset db ?a ?i")
        case None
        from reconcile_ok[OF None] obtain lg post where
          r: "snd (reconcile cx db ?i) = lg @ [EvResetStateFreezerTableOffset ?a ?i, ?P] @ post"
          and lg: "\<forall>ev \<in> set lg. \<not> mutation ev" and post: "\<forall>ev \<in> set post. \<not> mutation ev"
          by blast
        have "snd (hbss2pbss cx db) = (pre @ lg) @ [EvResetStateFreezerTableOffset ?a ?i, ?P] @ post"
          using late(1) r by simp
        moreover have "?P \<notin> set (pre @ lg)" using pre lg by auto
        moreover have "?P \<notin> set post" using post by auto
        ultimately have "\<exists>p q. snd (hbss2pbss cx db) = p @ [EvResetStateFreezerTableOffset ?a ?i, ?P] @ q
            \<and> ?P \<notin> set p \<and> ?P \<notin> set q"
          by (intro exI conjI)
        with None show ?thesis by simp
      next
        case (Some e)
        from reconcile_fail[OF Some] late(1) pre Some show ?thesis by simp
      qed
    qed
  qed
  from live early safe show ?thesis by (intro conjI) simp_all
qed

lemmas h2p_defs = hbss2pbss_def convert_def reconcile_def ancientDir_def lastStateID_def
  NArg_def first_def MaxUint64_def zeroHash_def noArgs_def eightJobs_def freshStore_def convertedStore_def
  lockedFreezer_def

lemmas completion_defs = h2p_defs convertingStore_def headerless_def reachesCompletion_def

theorem hbss2pbss_reset_before_prune_witness:
  "reachesCompletion noArgs convertingStore
   \<and> (\<exists>pre. EvRun \<in> set pre
         \<and> hbss2pbss noArgs convertingStore =
             (Return None,
              pre @ [EvResetStateFreezerTableOffset ''/data/chaindata/ancient'' 1,
                     EvPruneHashTrieNodeInDataBase]))
   \<and> reachesCompletion noArgs convertedStore
   \<and> (\<exists>pre. EvRun \<notin> set pre
         \<and> hbss2pbss noArgs convertedStore =
             (Return None,
              pre @ [EvResetStateFreezerTableOffset ''/data/chaindata/ancient'' 5,
                     EvPruneHashTrieNodeInDataBase]))
   \<and> reachesCompletion noArgs lockedFreezer
   \<and> (\<exists>pre. EvRun \<notin> set pre
         \<and> hbss2pbss noArgs lockedFreezer =
             (Return (Some (Ext ''permission denied'')),
              pre @ [EvResetStateFreezerTableOffset ''/data/chaindata/ancient'' 5,
                     Log LvError ''Reset state freezer table offset failed''
                       [(''error'', VErr (Ext ''permission denied''))]]))
   \<and> \<not> reachesCompletion noArgs headerless
   \<and> list_all (\<lambda>ev. \<not> mutation ev) (snd (hbss2pbss noArgs headerless))
   \<and> fst (hbss2pbss noArgs headerless) \<noteq> Return None
   \<and> EvPruneHashTrieNodeInDataBase \<in> set (snd (hbss2pbss noArgs convertingStore))
   \<and> (\<exists>pre post. snd (hbss2pbss noArgs convertingStore) =
          pre @ [EvResetStateFreezerTableOffset ''/data/chaindata/ancient'' 1,
                 EvPruneHashTrieNodeInDataBase] @ post
        \<and> EvPruneHashTrieNodeInDataBase \<notin> set pre \<and> EvPruneHashTrieNodeInDataBase \<notin> set post)
   \<and> EvPruneHashTrieNodeInDataBase \<notin> set (snd (hbss2pbss noArgs lockedFreezer))
   \<and> fst (hbss2pbss noArgs lockedFreezer) = Return (Some (Ext ''permission denied''))"
proof -
  have rc: "reachesCompletion noArgs convertingStore" "reachesCompletion noArgs convertedStore"
      "reachesCompletion noArgs lockedFreezer" "\<not> reachesCompletion noArgs headerless"
    by (simp_all add: completion_defs Let_def)
  have a: "ancientDir noArgs convertingStore = ''/data/chaindata/ancient''"
      "ancientDir noArgs convertedStore = ''/data/chaindata/ancient''"
      "ancientDir noArgs lockedFreezer = ''/data/chaindata/ancient''"
    by (simp_all add: completion_defs Let_def)
  have i: "lastStateID noArgs convertingStore = 1"
      "lastStateID noArgs convertedStore = 5"
      "lastStateID noArgs lockedFreezer = 5"
    by (simp_all add: completion_defs Let_def)
  have r: "resetStateFreezerTableOffset convertingStore ''/data/chaindata/ancient'' 1 = None"
      "resetStateFreezerTableOffset convertedStore ''/data/chaindata/ancient'' 5 = None"
      "resetStateFreezerTableOffset lockedFreezer ''/data/chaindata/ancient'' 5 = Some ''permission denied''"
    by (simp_all add: completion_defs Let_def)
  have p: "pruneHashTrieNodeInDataBase convertingStore = None"
      "pruneHashTrieNodeInDataBase convertedStore = None"
    by (simp_all add: completion_defs Let_def)
  have f: "readPersistentStateID convertingStore = 0" "readPersistentStateID convertedStore = 5"
      "readPersistentStateID lockedFreezer = 5" "\<not> forceFlag noArgs"
    by (simp_all add: completion_defs Let_def)
  have d: "EvPruneHashTrieNodeInDataBase \<in> set (snd (hbss2pbss noArgs convertingStore))"
      "EvResetStateFreezerTableOffset ''/data/chaindata/ancient'' 5
        \<in> set (snd (hbss2pbss noArgs lockedFreezer))"
    by (simp_all add: completion_defs Let_def)
  note t1 = hbss2pbss_reset_before_prune [of noArgs convertingStore]
  note t2 = hbss2pbss_reset_before_prune [of noArgs convertedStore]
  note t3 = hbss2pbss_reset_before_prune [of noArgs lockedFreezer]
  note t4 = hbss2pbss_reset_before_prune [of noArgs headerless]
  from t1 rc a i r p f have c1: "\<exists>pre. EvRun \<in> set pre
         \<and> hbss2pbss noArgs convertingStore =
             (Return None,
              pre @ [EvResetStateFreezerTableOffset ''/data/chaindata/ancient'' 1,
                     EvPruneHashTrieNodeInDataBase])"
    by auto
  from t2 rc a i r p f have c2: "\<exists>pre. EvRun \<notin> set pre
         \<and> hbss2pbss noArgs convertedStore =
             (Return None,
              pre @ [EvResetStateFreezerTableOffset ''/data/chaindata/ancient'' 5,
                     EvPruneHashTrieNodeInDataBase])"
    by auto
  from t3 rc a i r f have c3: "\<exists>pre. EvRun \<notin> set pre
         \<and> hbss2pbss noArgs lockedFreezer =
             (Return (Some (Ext ''permission denied'')),
              pre @ [EvResetStateFreezerTableOffset ''/data/chaindata/ancient'' 5,
                     Log LvError ''Reset state freezer table offset failed''
                       [(''error'', VErr (Ext ''permission denied''))]])"
    by auto
  from t4 rc have c4: "list_all (\<lambda>ev. \<not> mutation ev) (snd (hbss2pbss noArgs headerless))
      \<and> fst (hbss2pbss noArgs headerless) \<noteq> Return None"
    by (simp add: list_all_iff)
  from t1 a i d have c5: "\<exists>pre post. snd (hbss2pbss noArgs convertingStore) =
          pre @ [EvResetStateFreezerTableOffset ''/data/chaindata/ancient'' 1,
                 EvPruneHashTrieNodeInDataBase] @ post
        \<and> EvPruneHashTrieNodeInDataBase \<notin> set pre \<and> EvPruneHashTrieNodeInDataBase \<notin> set post"
    by simp
  from t3 a i r d have c6: "EvPruneHashTrieNodeInDataBase \<notin> set (snd (hbss2pbss noArgs lockedFreezer))
      \<and> fst (hbss2pbss noArgs lockedFreezer) = Return (Some (Ext ''permission denied''))"
    by simp
  from rc c1 c2 c3 c4 c5 c6 d show ?thesis by (intro conjI) simp_all
qed

text \<open>
  C7. The claim: when the persistent state ID read back after the conversion phase is
  still zero, the command stops before it resets the freezer offset and before it deletes
  the hash-scheme nodes. The code logs the error and goes on: on a store that was never
  converted and whose conversion produces no state version, it resets the offset to 0,
  deletes the hash-scheme nodes and returns success.
\<close>

theorem hbss2pbss_zero_id_goes_on:
  "lastStateID noArgs freshStore = 0
   \<and> hbss2pbss noArgs freshStore =
       (Return None,
        [EvMakeChainDatabase False, EvSyncAncient,
         Log LvInfo ''hbss2pbss triedb'' [],
         Log LvInfo ''hbss2pbss converting''
           [(''HeaderHash: '', VHash (replicate 32 7)), ('', blockNumber: '', VNum 100)],
         Println ''Canonical Hash: '',
         EvTrieNew (StateTrieID (replicate 32 9)),
         EvNewHbss2Pbss (replicate 32 9) 100 1000,
         EvRun,
         Log LvError ''Convert hbss to pbss trie node error. The last state id is still 0'' [],
         EvResetStateFreezerTableOffset ''/data/chaindata/ancient'' 0,
         EvPruneHashTrieNodeInDataBase])"
  by (simp add: h2p_defs Let_def)

text \<open>
  C9, as stated, fails: with a nonzero persistent state ID and no force flag, a failing
  offset reset ends the command before the hash-scheme nodes are deleted.
\<close>

theorem hbss2pbss_skip_counterexample:
  "readPersistentStateID lockedFreezer \<noteq> 0 \<and> \<not> forceFlag noArgs
   \<and> EvPruneHashTrieNodeInDataBase \<notin> set (snd (hbss2pbss noArgs lockedFreezer))"
  by (simp add: h2p_defs Let_def)

text \<open>
  C9, amended. When the stored persistent state ID is nonzero, the force flag is not set
  and the command line has at most one argument, a well-formed job count, the conversion
  is skipped (no trie is opened, no converter is built or run), the state freezer table
  offset is reset to that ID, and then: if the reset fails its error is returned and
  nothing is deleted; if it succeeds the hash-scheme nodes are deleted and the result of
  that deletion is the result of the command.
\<close>

theorem hbss2pbss_skip:
  "readPersistentStateID db \<noteq> 0 \<Longrightarrow> \<not> forceFlag cx \<Longrightarrow> NArg cx \<le> 1 \<Longrightarrow>
   (NArg cx = 1 \<longrightarrow> (\<exists>j. parseUint db (first cx) = Inr j)) \<Longrightarrow>
   hbss2pbss cx db =
     (case resetStateFreezerTableOffset db (ancientDir cx db) (readPersistentStateID db) of
        Some e \<Rightarrow>
          (Return (Some (Ext e)),
           [EvMakeChainDatabase False, EvSyncAncient,
            Log LvInfo ''Convert hbss to pbss success. Nothing to do.'' [],
            EvResetStateFreezerTableOffset (ancientDir cx db) (readPersistentStateID db),
            Log LvError ''Reset state freezer table offset failed'' [(''error'', VErr (Ext e))]])
      | None \<Rightarrow>
          (Return (map_option Ext (pruneHashTrieNodeInDataBase db)),
           [EvMakeChainDatabase False, EvSyncAncient,
            Log LvInfo ''Convert hbss to pbss success. Nothing to do.'' [],
            EvResetStateFreezerTableOffset (ancientDir cx db) (readPersistentStateID db),
            EvPruneHashTrieNodeInDataBase] @
           (case pruneHashTrieNodeInDataBase db of
              Some e \<Rightarrow> [Log LvError ''Prune Hash trie node in database failed''
                           [(''error'', VErr (Ext e))]]
            | None \<Rightarrow> [])))
   \<and> EvRun \<notin> set (snd (hbss2pbss cx db))
   \<and> (\<forall>id. EvTrieNew id \<notin> set (snd (hbss2pbss cx db)))
   \<and> (\<forall>r n j. EvNewHbss2Pbss r n j \<notin> set (snd (hbss2pbss cx db)))"
  by (auto simp: hbss2pbss_def reconcile_def Let_def split: option.splits sum.splits)

theorem hbss2pbss_skip_witness:
  "readPersistentStateID convertedStore \<noteq> 0 \<and> \<not> forceFlag noArgs \<and> NArg noArgs \<le> 1
   \<and> hbss2pbss eightJobs convertedStore =
       (Return None,
        [EvMakeChainDatabase False, EvSyncAncient,
         Log LvInfo ''Convert hbss to pbss success. Nothing to do.'' [],
         EvResetStateFreezerTableOffset ''/data/chaindata/ancient'' 5,
         EvPruneHashTrieNodeInDataBase])
   \<and> hbss2pbss noArgs lockedFreezer =
       (Return (Some (Ext ''permission denied'')),
        [EvMakeChainDatabase False, EvSyncAncient,
         Log LvInfo ''Convert hbss to pbss success. Nothing to do.'' [],
         EvResetStateFreezerTableOffset ''/data/chaindata/ancient'' 5,
         Log LvError ''Reset state freezer table offset failed''
           [(''error'', VErr (Ext ''permission denied''))]])"
proof -
  have a: "readPersistentStateID convertedStore \<noteq> 0" "readPersistentStateID lockedFreezer \<noteq> 0"
    by (simp_all add: h2p_defs Let_def)
  have b: "\<not> forceFlag eightJobs" "\<not> forceFlag noArgs"
    by (simp_all add: noArgs_def eightJobs_def)
  have c: "NArg eightJobs \<le> 1" "NArg noArgs \<le> 1"
    by (simp_all add: noArgs_def eightJobs_def NArg_def)
  have d: "NArg eightJobs = 1 \<longrightarrow>
             (\<exists>j. parseUint convertedStore (first eightJobs) = Inr j)"
          "NArg noArgs = 1 \<longrightarrow> (\<exists>j. parseUint lockedFreezer (first noArgs) = Inr j)"
    by (simp_all add: h2p_defs Let_def)
  from hbss2pbss_skip [OF a(1) b(1) c(1) d(1)] hbss2pbss_skip [OF a(2) b(2) c(2) d(2)] a b c
  show ?thesis by (simp add: h2p_defs Let_def)
qed


subsection \<open>verify-state\<close>

lemma verifyState_reached:
  "readHeadBlock db = Some hb \<Longrightarrow> snapshotNew db (blockRoot hb) = None \<Longrightarrow> NArg cx \<le> 1 \<Longrightarrow>
   (NArg cx = 1 \<longrightarrow> unmarshalText L (first cx) = Inr h) \<Longrightarrow>
   root = (if NArg cx = 1 then h else blockRoot hb) \<Longrightarrow>
   verifyState L cx db =
     (case verify db root of
        Some e \<Rightarrow>
          (Return (Some (Ext e)),
           [EvMakeChainDatabase True, EvMakeTrieDatabase, EvSnapshotNew (blockRoot hb), EvVerify root,
            Log LvError ''Failed to verify state'' [(''root'', VHash root), (''err'', VErr (Ext e))]])
      | None \<Rightarrow>
          (Return (map_option Ext (checkDanglingStorage db)),
           [EvMakeChainDatabase True, EvMakeTrieDatabase, EvSnapshotNew (blockRoot hb), EvVerify root,
            Log LvInfo ''Verified the state'' [(''root'', VHash root)], EvCheckDanglingStorage]))"
  by (auto simp: verifyState_def parseRoot_def split: option.splits sum.splits)

lemma verifyState_dangling_only_after_verify:
  "EvCheckDanglingStorage \<in> set (snd (verifyState L cx db)) \<Longrightarrow>
     \<exists>r pre. snd (verifyState L cx db) =
         pre @ [EvVerify r, Log LvInfo ''Verified the state'' [(''root'', VHash r)], EvCheckDanglingStorage]
       \<and> verify db r = None
       \<and> fst (verifyState L cx db) = Return (map_option Ext (checkDanglingStorage db))"
  by (auto simp: verifyState_def parseRoot_def Let_def split: option.splits sum.splits if_splits prod.splits)

text \<open>
  C5. verify-state runs the snapshot verification of the chosen root first. If it fails,
  the command returns that error and the dangling-storage check is not run; otherwise the
  command returns what the dangling-storage check returns. In any run at all, the
  dangling-storage check runs only directly after a successful verification.
\<close>

theorem verifyState_verify_then_dangling:
  "(\<forall>hb h root. readHeadBlock db = Some hb \<and> snapshotNew db (blockRoot hb) = None \<and> NArg cx \<le> 1
       \<and> (NArg cx = 1 \<longrightarrow> unmarshalText L (first cx) = Inr h)
       \<and> root = (if NArg cx = 1 then h else blockRoot hb) \<longrightarrow>
      verifyState L cx db =
        (case verify db root of
           Some e \<Rightarrow>
             (Return (Some (Ext e)),
              [EvMakeChainDatabase True, EvMakeTrieDatabase, EvSnapshotNew (blockRoot hb), EvVerify root,
               Log LvError ''Failed to verify state'' [(''root'', VHash root), (''err'', VErr (Ext e))]])
         | None \<Rightarrow>
             (Return (map_option Ext (checkDanglingStorage db)),
              [EvMakeChainDatabase True, EvMakeTrieDatabase, EvSnapshotNew (blockRoot hb), EvVerify root,
               Log LvInfo ''Verified the state'' [(''root'', VHash root)], EvCheckDanglingStorage])))
   \<and> (EvCheckDanglingStorage \<in> set (snd (verifyState L cx db)) \<longrightarrow>
        (\<exists>r pre. snd (verifyState L cx db) =
            pre @ [EvVerify r, Log LvInfo ''Verified the state'' [(''root'', VHash r)],
                   EvCheckDanglingStorage]
          \<and> verify db r = None
          \<and> fst (verifyState L cx db) = Return (map_option Ext (checkDanglingStorage db))))"
  using verifyState_reached [of db _ cx L] verifyState_dangling_only_after_verify [of L cx db]
  by blast

lemmas sample_defs = sampleLib_def sampleState_def sampleReader_def sampleAccounts_def sampleStorage_def
  noArgs_def rootArg_def badRootArg_def noHead_def unverifiable_def
  NArg_def first_def zeroHash_def parseRoot_def chooseRoot_def noCounts_def

theorem verifyState_verify_then_dangling_witness:
  "verifyState sampleLib noArgs sampleState =
     (Return None,
      [EvMakeChainDatabase True, EvMakeTrieDatabase, EvSnapshotNew (replicate 32 1),
       EvVerify (replicate 32 1),
       Log LvInfo ''Verified the state'' [(''root'', VHash (replicate 32 1))],
       EvCheckDanglingStorage])
   \<and> verifyState sampleLib rootArg unverifiable =
     (Return (Some (Ext ''missing trie node'')),
      [EvMakeChainDatabase True, EvMakeTrieDatabase, EvSnapshotNew (replicate 32 1),
       EvVerify (replicate 32 1),
       Log LvError ''Failed to verify state''
         [(''root'', VHash (replicate 32 1)), (''err'', VErr (Ext ''missing trie node''))]])"
proof -
  have a: "readHeadBlock sampleState = Some \<lparr>blockRoot = replicate 32 1, blockNumberU64 = 100\<rparr>
      \<and> snapshotNew sampleState (blockRoot \<lparr>blockRoot = replicate 32 1, blockNumberU64 = 100\<rparr>) = None
      \<and> NArg noArgs \<le> 1
      \<and> (NArg noArgs = 1 \<longrightarrow> unmarshalText sampleLib (first noArgs) = Inr (replicate 32 1))
      \<and> replicate 32 1 = (if NArg noArgs = 1 then replicate 32 1
                          else blockRoot \<lparr>blockRoot = replicate 32 1, blockNumberU64 = 100\<rparr>)"
    by (simp add: sample_defs)
  have b: "readHeadBlock unverifiable = Some \<lparr>blockRoot = replicate 32 1, blockNumberU64 = 100\<rparr>
      \<and> snapshotNew unverifiable (blockRoot \<lparr>blockRoot = replicate 32 1, blockNumberU64 = 100\<rparr>) = None
      \<and> NArg rootArg \<le> 1
      \<and> (NArg rootArg = 1 \<longrightarrow> unmarshalText sampleLib (first rootArg) = Inr (replicate 32 1))
      \<and> replicate 32 1 = (if NArg rootArg = 1 then replicate 32 1
                          else blockRoot \<lparr>blockRoot = replicate 32 1, blockNumberU64 = 100\<rparr>)"
    by (simp add: sample_defs)
  have va: "verify sampleState (replicate 32 1) = None" "checkDanglingStorage sampleState = None"
    by (simp_all add: sample_defs)
  have vb: "verify unverifiable (replicate 32 1) = Some ''missing trie node''"
    by (simp add: sample_defs)
  from verifyState_verify_then_dangling [of sampleState noArgs sampleLib, THEN conjunct1, rule_format, OF a]
       verifyState_verify_then_dangling [of unverifiable rootArg sampleLib, THEN conjunct1, rule_format, OF b]
       va vb
  show ?thesis by simp
qed

subsection \<open>insecure-prune-all\<close>

lemma pruneAll_absent:
  "first cx = [] \<Longrightarrow>
   pruneAllState cx db store = (Exit 1, [Fatalf ''Must supply path to genesis JSON file''], store)"
  by (simp add: pruneAllState_def)

lemma pruneAll_present:
  "first cx \<noteq> [] \<Longrightarrow> openFile db (first cx) = Inr file \<Longrightarrow>
   loadGenesis db (first cx) file = Inr g \<Longrightarrow> newAllPruner db = None \<Longrightarrow> pruneAllErr db g = None \<Longrightarrow>
   pruneAllState cx db store =
     (Return None, [EvMakeChainDatabase False, EvNewAllPruner, EvPruneAll g],
      filter (\<lambda>k. \<not> isTrieKey db k \<or> k \<in> set (genesisNodes db g)) store)"
  by (simp add: pruneAllState_def PruneAll_def)

lemma pruneAll_only_mutation:
  "pruneAllState cx db store = (out, tr, store') \<Longrightarrow> store' \<noteq> store \<Longrightarrow>
   \<exists>file g. first cx \<noteq> [] \<and> openFile db (first cx) = Inr file \<and> loadGenesis db (first cx) file = Inr g
      \<and> EvPruneAll g \<in> set tr \<and> store' = snd (PruneAll db g store)"
  by (auto simp: pruneAllState_def Let_def split: if_splits sum.splits option.splits prod.splits)


text \<open>
  C8. insecure-prune-all needs the path of a genesis file. Without it the command ends
  the process before the chain database is opened, and the node store is as it was. With
  it, the genesis is the JSON decoded from the file or, when that does not decode, the
  genesis of the configuration file at that path; \<open>PruneAll\<close> is called on that genesis,
  and of the trie keys of the store only nodes of that genesis state remain. The store
  changes in no other way.
\<close>

theorem pruneAllState_genesis:
  "(first cx = [] \<longrightarrow>
      pruneAllState cx db store = (Exit 1, [Fatalf ''Must supply path to genesis JSON file''], store))
   \<and> (\<forall>file g. decodeGenesis db file = Inr g \<longrightarrow> loadGenesis db (first cx) file = Inr (Some g))
   \<and> (\<forall>file e. decodeGenesis db file = Inl e \<longrightarrow>
         loadGenesis db (first cx) file = loadConfig db (first cx))
   \<and> (\<forall>file g. first cx \<noteq> [] \<and> openFile db (first cx) = Inr file
         \<and> loadGenesis db (first cx) file = Inr g \<and> newAllPruner db = None \<and> pruneAllErr db g = None \<longrightarrow>
         pruneAllState cx db store =
           (Return None, [EvMakeChainDatabase False, EvNewAllPruner, EvPruneAll g],
            filter (\<lambda>k. \<not> isTrieKey db k \<or> k \<in> set (genesisNodes db g)) store)
         \<and> (\<forall>k \<in> set (snd (snd (pruneAllState cx db store))).
               isTrieKey db k \<longrightarrow> k \<in> set (genesisNodes db g)))
   \<and> (\<forall>out tr store'. pruneAllState cx db store = (out, tr, store') \<and> store' \<noteq> store \<longrightarrow>
         (\<exists>file g. first cx \<noteq> [] \<and> openFile db (first cx) = Inr file
            \<and> loadGenesis db (first cx) file = Inr g
            \<and> EvPruneAll g \<in> set tr \<and> store' = snd (PruneAll db g store)))"
proof (intro conjI allI impI)
  assume "first cx = []"
  then show "pruneAllState cx db store =
      (Exit 1, [Fatalf ''Must supply path to genesis JSON file''], store)"
    by (rule pruneAll_absent)
next
  fix fl g assume "decodeGenesis db fl = Inr g"
  then show "loadGenesis db (first cx) fl = Inr (Some g)" by (simp add: loadGenesis_def)
next
  fix fl e assume "decodeGenesis db fl = Inl e"
  then show "loadGenesis db (first cx) fl = loadConfig db (first cx)"
    by (simp add: loadGenesis_def)
next
  fix fl g
  assume a: "first cx \<noteq> [] \<and> openFile db (first cx) = Inr fl
         \<and> loadGenesis db (first cx) fl = Inr g \<and> newAllPruner db = None \<and> pruneAllErr db g = None"
  then show r: "pruneAllState cx db store =
           (Return None, [EvMakeChainDatabase False, EvNewAllPruner, EvPruneAll g],
            filter (\<lambda>k. \<not> isTrieKey db k \<or> k \<in> set (genesisNodes db g)) store)"
    using pruneAll_present [of cx db fl g store] by simp
  from r show "\<forall>k \<in> set (snd (snd (pruneAllState cx db store))).
      isTrieKey db k \<longrightarrow> k \<in> set (genesisNodes db g)"
    by simp
next
  fix out tr store'
  assume "pruneAllState cx db store = (out, tr, store') \<and> store' \<noteq> store"
  then show "\<exists>file g. first cx \<noteq> [] \<and> openFile db (first cx) = Inr file
            \<and> loadGenesis db (first cx) file = Inr g
            \<and> EvPruneAll g \<in> set tr \<and> store' = snd (PruneAll db g store)"
    using pruneAll_only_mutation [of cx db store out tr store'] by simp
qed

lemmas files_defs = files_def nodeStore_def genesisArg_def configArg_def noArgs_def
  first_def loadGenesis_def

theorem pruneAllState_genesis_witness:
  "first noArgs = []
   \<and> pruneAllState noArgs files nodeStore =
       (Exit 1, [Fatalf ''Must supply path to genesis JSON file''], nodeStore)
   \<and> loadGenesis files ''genesis.json'' [1] = Inr (Some (Genesis ''mainnet''))
   \<and> pruneAllState genesisArg files nodeStore =
       (Return None,
        [EvMakeChainDatabase False, EvNewAllPruner, EvPruneAll (Some (Genesis ''mainnet''))],
        [[1], [2], [9, 9]])
   \<and> loadGenesis files ''config.toml'' [2] = Inr (Some (Genesis ''testnet''))
   \<and> pruneAllState configArg files nodeStore =
       (Return None,
        [EvMakeChainDatabase False, EvNewAllPruner, EvPruneAll (Some (Genesis ''testnet''))],
        [[3], [9, 9]])"
proof -
  have a: "first noArgs = []" by (simp add: files_defs)
  have g: "first genesisArg \<noteq> [] \<and> openFile files (first genesisArg) = Inr [1]
       \<and> loadGenesis files (first genesisArg) [1] = Inr (Some (Genesis ''mainnet''))
       \<and> newAllPruner files = None \<and> pruneAllErr files (Some (Genesis ''mainnet'')) = None"
    by (simp add: files_defs)
  have c: "first configArg \<noteq> [] \<and> openFile files (first configArg) = Inr [2]
       \<and> loadGenesis files (first configArg) [2] = Inr (Some (Genesis ''testnet''))
       \<and> newAllPruner files = None \<and> pruneAllErr files (Some (Genesis ''testnet'')) = None"
    by (simp add: files_defs)
  have p: "first genesisArg = ''genesis.json''" "first configArg = ''config.toml''"
    by (simp_all add: files_defs)
  have f: "filter (\<lambda>k. \<not> isTrieKey files k \<or> k \<in> set (genesisNodes files (Some (Genesis ''mainnet''))))
             nodeStore = [[1], [2], [9, 9]]"
     "filter (\<lambda>k. \<not> isTrieKey files k \<or> k \<in> set (genesisNodes files (Some (Genesis ''testnet''))))
             nodeStore = [[3], [9, 9]]"
    by (simp_all add: files_defs)
  note t = pruneAllState_genesis
  from t [of noArgs files nodeStore, THEN conjunct1, rule_format, OF a]
       t [of genesisArg files nodeStore, THEN conjunct2, THEN conjunct2, THEN conjunct2,
          THEN conjunct1, rule_format, OF g, THEN conjunct1]
       t [of configArg files nodeStore, THEN conjunct2, THEN conjunct2, THEN conjunct2,
          THEN conjunct1, rule_format, OF c, THEN conjunct1]
       a g c p f
  show ?thesis by simp
qed

subsection \<open>The root that is walked\<close>

lemma stateStorage_walks:
  "stateStorage L db root key acc c = (r, c', tr) \<Longrightarrow> list_all (walks root) tr"
  by (auto simp: stateStorage_def Let_def split: sum.splits option.splits)

lemma stateAccount_walks:
  "stateAccount L db root kv c = (r, c', tr) \<Longrightarrow> list_all (walks root) tr"
  by (auto simp: stateAccount_def Let_def split: sum.splits option.splits if_splits prod.splits
      dest: stateStorage_walks)

lemma stateAccountLoop_walks:
  "stateAccountLoop L db root kvs c = (r, c', tr) \<Longrightarrow> list_all (walks root) tr"
proof (induction kvs arbitrary: c r c' tr)
  case Nil
  then show ?case by simp
next
  case (Cons kv kvs)
  obtain r1 c1 tr1 where a: "stateAccount L db root kv c = (r1, c1, tr1)"
    by (cases "stateAccount L db root kv c") auto
  from stateAccount_walks[OF a] have w1: "list_all (walks root) tr1" .
  show ?case
  proof (cases r1)
    case (Some e)
    with Cons.prems a w1 show ?thesis by simp
  next
    case None
    obtain r2 c2 tr2 where b: "stateAccountLoop L db root kvs c1 = (r2, c2, tr2)"
      by (cases "stateAccountLoop L db root kvs c1") auto
    from Cons.IH[OF b] have "list_all (walks root) tr2" .
    with Cons.prems a b None w1 show ?thesis by auto
  qed
qed

lemma rawStorageLoop_walks:
  "rawStorageLoop L rd key ns c = (r, c', tr) \<Longrightarrow> list_all (walks root) tr"
  by (induction ns arbitrary: c) (auto simp: Let_def split: if_splits)

lemma rawStorage_walks:
  "rawStorage L db rd root key acc c = (r, c', tr) \<Longrightarrow> list_all (walks root) tr"
  by (auto simp: rawStorage_def Let_def split: sum.splits option.splits prod.splits
      dest: rawStorageLoop_walks[where root = root])

lemma rawLeaf_walks:
  "rawLeaf L db rd root n c = (r, c', tr) \<Longrightarrow> list_all (walks root) tr"
  by (auto simp: rawLeaf_def Let_def split: sum.splits option.splits if_splits prod.splits
      dest: rawStorage_walks)

lemma rawAccountLoop_walks:
  "rawAccountLoop L db rd root ns c = (r, c', tr) \<Longrightarrow> list_all (walks root) tr"
proof (induction ns arbitrary: c r c' tr)
  case Nil
  then show ?case by simp
next
  case (Cons n ns)
  let ?c1 = "c\<lparr>cNodes := cNodes c + 1\<rparr>"
  obtain r1 c1 tr1 where a: "(if nLeaf n then rawLeaf L db rd root n ?c1 else (None, ?c1, [])) = (r1, c1, tr1)"
    by (cases "if nLeaf n then rawLeaf L db rd root n ?c1 else (None, ?c1, [])") auto
  have w1: "list_all (walks root) tr1"
    using a rawLeaf_walks[of L db rd root n ?c1 r1 c1 tr1] by (auto split: if_splits)
  obtain r2 c2 tr2 where b: "rawAccountLoop L db rd root ns c1 = (r2, c2, tr2)"
    by (cases "rawAccountLoop L db rd root ns c1") auto
  from Cons.IH[OF b] have w2: "list_all (walks root) tr2" .
  from Cons.prems a b w1 w2 show ?case
    by (auto simp: Let_def split: if_splits option.splits)
qed

lemma chooseRoot_none:
  "NArg cx = 0 \<Longrightarrow> chooseRoot L cx hb =
     Inr (blockRoot hb, [Log LvInfo ''Start traversing the state''
                [(''root'', VHash (blockRoot hb)), (''number'', VNum (blockNumberU64 hb))]])"
  by (simp add: chooseRoot_def)

lemma chooseRoot_bad:
  "NArg cx = 1 \<Longrightarrow> unmarshalText L (first cx) = Inl e \<Longrightarrow>
   chooseRoot L cx hb = Inl (Ext e, [Log LvError ''Failed to resolve state root'' [(''err'', VErr (Ext e))]])"
  by (simp add: chooseRoot_def parseRoot_def)

lemma chooseRoot_good:
  "NArg cx = 1 \<Longrightarrow> unmarshalText L (first cx) = Inr h \<Longrightarrow>
   chooseRoot L cx hb = Inr (h, [Log LvInfo ''Start traversing the state'' [(''root'', VHash h)]])"
  by (simp add: chooseRoot_def parseRoot_def)

lemma traverseState_walks:
  assumes hb: "readHeadBlock db = Some hb" and cr: "chooseRoot L cx hb = Inr (root, lg)"
    and lg: "list_all (walks root) lg"
  shows "list_all (walks root) (snd (traverseState L cx db))
     \<and> EvNewStateTrie (StateTrieID root) \<in> set (snd (traverseState L cx db))"
  using hb cr lg
  by (auto simp: traverseState_def Let_def split: sum.splits option.splits prod.splits
      dest: stateAccountLoop_walks)

lemma traverseRawState_walks:
  assumes hb: "readHeadBlock db = Some hb" and cr: "chooseRoot L cx hb = Inr (root, lg)"
    and lg: "list_all (walks root) lg"
  shows "list_all (walks root) (snd (traverseRawState L cx db))
     \<and> EvNewStateTrie (StateTrieID root) \<in> set (snd (traverseRawState L cx db))"
  using hb cr lg
  by (auto simp: traverseRawState_def Let_def split: sum.splits option.splits prod.splits
      dest: rawAccountLoop_walks)


lemma verifyState_root:
  "(readHeadBlock db = None \<longrightarrow>
      verifyState L cx db =
        (Return (Some (Err ''no head block'')),
         [EvMakeChainDatabase True, Log LvError ''Failed to load head block'' []]))
   \<and> (\<forall>hb. readHeadBlock db = Some hb \<and> NArg cx = 0 \<longrightarrow>
         list_all (walks (blockRoot hb)) (snd (verifyState L cx db))
         \<and> (snapshotNew db (blockRoot hb) = None \<longrightarrow>
              EvVerify (blockRoot hb) \<in> set (snd (verifyState L cx db))))
   \<and> (\<forall>e. NArg cx = 1 \<and> unmarshalText L (first cx) = Inl e \<longrightarrow>
         (\<exists>err. fst (verifyState L cx db) = Return (Some err))
         \<and> \<not> list_ex traversal (snd (verifyState L cx db))
         \<and> (\<forall>hb. readHeadBlock db = Some hb \<and> snapshotNew db (blockRoot hb) = None \<longrightarrow>
               fst (verifyState L cx db) = Return (Some (Ext e))))
   \<and> (\<forall>h hb. NArg cx = 1 \<and> unmarshalText L (first cx) = Inr h \<and> readHeadBlock db = Some hb \<longrightarrow>
         list_all (walks h) (snd (verifyState L cx db))
         \<and> (snapshotNew db (blockRoot hb) = None \<longrightarrow> EvVerify h \<in> set (snd (verifyState L cx db))))"
  by (auto simp: verifyState_def parseRoot_def Let_def split: option.splits sum.splits)

lemma traverseState_root:
  "(readHeadBlock db = None \<longrightarrow>
      traverseState L cx db =
        (Return (Some (Err ''no head block'')),
         [EvMakeChainDatabase True, EvMakeTrieDatabase, Log LvError ''Failed to load head block'' []]))
   \<and> (\<forall>hb. readHeadBlock db = Some hb \<and> NArg cx = 0 \<longrightarrow>
         list_all (walks (blockRoot hb)) (snd (traverseState L cx db))
         \<and> EvNewStateTrie (StateTrieID (blockRoot hb)) \<in> set (snd (traverseState L cx db)))
   \<and> (\<forall>e. NArg cx = 1 \<and> unmarshalText L (first cx) = Inl e \<longrightarrow>
         (\<exists>err. fst (traverseState L cx db) = Return (Some err))
         \<and> \<not> list_ex traversal (snd (traverseState L cx db))
         \<and> (\<forall>hb. readHeadBlock db = Some hb \<longrightarrow>
               fst (traverseState L cx db) = Return (Some (Ext e))))
   \<and> (\<forall>h hb. NArg cx = 1 \<and> unmarshalText L (first cx) = Inr h \<and> readHeadBlock db = Some hb \<longrightarrow>
         list_all (walks h) (snd (traverseState L cx db))
         \<and> EvNewStateTrie (StateTrieID h) \<in> set (snd (traverseState L cx db)))"
proof (intro conjI allI impI)
  assume "readHeadBlock db = None"
  then show "traverseState L cx db =
        (Return (Some (Err ''no head block'')),
         [EvMakeChainDatabase True, EvMakeTrieDatabase, Log LvError ''Failed to load head block'' []])"
    by (simp add: traverseState_def)
next
  fix hb assume a: "readHeadBlock db = Some hb \<and> NArg cx = 0"
  from a chooseRoot_none[of cx L hb] traverseState_walks[of db hb L cx "blockRoot hb"]
  show "list_all (walks (blockRoot hb)) (snd (traverseState L cx db))"
    and "EvNewStateTrie (StateTrieID (blockRoot hb)) \<in> set (snd (traverseState L cx db))"
    by simp_all
next
  fix e assume a: "NArg cx = 1 \<and> unmarshalText L (first cx) = Inl e"
  show "\<exists>err. fst (traverseState L cx db) = Return (Some err)"
    using a chooseRoot_bad[of cx L e] by (cases "readHeadBlock db") (simp_all add: traverseState_def)
  show "\<not> list_ex traversal (snd (traverseState L cx db))"
    using a chooseRoot_bad[of cx L e] by (cases "readHeadBlock db") (simp_all add: traverseState_def)
  fix hb assume "readHeadBlock db = Some hb"
  then show "fst (traverseState L cx db) = Return (Some (Ext e))"
    using a chooseRoot_bad[of cx L e] by (simp add: traverseState_def)
next
  fix h hb assume a: "NArg cx = 1 \<and> unmarshalText L (first cx) = Inr h \<and> readHeadBlock db = Some hb"
  from a chooseRoot_good[of cx L h hb] traverseState_walks[of db hb L cx h]
  show "list_all (walks h) (snd (traverseState L cx db))"
    and "EvNewStateTrie (StateTrieID h) \<in> set (snd (traverseState L cx db))"
    by simp_all
qed

lemma traverseRawState_root:
  "(readHeadBlock db = None \<longrightarrow>
      traverseRawState L cx db =
        (Return (Some (Err ''no head block'')),
         [EvMakeChainDatabase True, EvMakeTrieDatabase, Log LvError ''Failed to load head block'' []]))
   \<and> (\<forall>hb. readHeadBlock db = Some hb \<and> NArg cx = 0 \<longrightarrow>
         list_all (walks (blockRoot hb)) (snd (traverseRawState L cx db))
         \<and> EvNewStateTrie (StateTrieID (blockRoot hb)) \<in> set (snd (traverseRawState L cx db)))
   \<and> (\<forall>e. NArg cx = 1 \<and> unmarshalText L (first cx) = Inl e \<longrightarrow>
         (\<exists>err. fst (traverseRawState L cx db) = Return (Some err))
         \<and> \<not> list_ex traversal (snd (traverseRawState L cx db))
         \<and> (\<forall>hb. readHeadBlock db = Some hb \<longrightarrow>
               fst (traverseRawState L cx db) = Return (Some (Ext e))))
   \<and> (\<forall>h hb. NArg cx = 1 \<and> unmarshalText L (first cx) = Inr h \<and> readHeadBlock db = Some hb \<longrightarrow>
         list_all (walks h) (snd (traverseRawState L cx db))
         \<and> EvNewStateTrie (StateTrieID h) \<in> set (snd (traverseRawState L cx db)))"
proof (intro conjI allI impI)
  assume "readHeadBlock db = None"
  then show "traverseRawState L cx db =
        (Return (Some (Err ''no head block'')),
         [EvMakeChainDatabase True, EvMakeTrieDatabase, Log LvError ''Failed to load head block'' []])"
    by (simp add: traverseRawState_def)
next
  fix hb assume a: "readHeadBlock db = Some hb \<and> NArg cx = 0"
  from a chooseRoot_none[of cx L hb] traverseRawState_walks[of db hb L cx "blockRoot hb"]
  show "list_all (walks (blockRoot hb)) (snd (traverseRawState L cx db))"
    and "EvNewStateTrie (StateTrieID (blockRoot hb)) \<in> set (snd (traverseRawState L cx db))"
    by simp_all
next
  fix e assume a: "NArg cx = 1 \<and> unmarshalText L (first cx) = Inl e"
  show "\<exists>err. fst (traverseRawState L cx db) = Return (Some err)"
    using a chooseRoot_bad[of cx L e] by (cases "readHeadBlock db") (simp_all add: traverseRawState_def)
  show "\<not> list_ex traversal (snd (traverseRawState L cx db))"
    using a chooseRoot_bad[of cx L e] by (cases "readHeadBlock db") (simp_all add: traverseRawState_def)
  fix hb assume "readHeadBlock db = Some hb"
  then show "fst (traverseRawState L cx db) = Return (Some (Ext e))"
    using a chooseRoot_bad[of cx L e] by (simp add: traverseRawState_def)
next
  fix h hb assume a: "NArg cx = 1 \<and> unmarshalText L (first cx) = Inr h \<and> readHeadBlock db = Some hb"
  from a chooseRoot_good[of cx L h hb] traverseRawState_walks[of db hb L cx h]
  show "list_all (walks h) (snd (traverseRawState L cx db))"
    and "EvNewStateTrie (StateTrieID h) \<in> set (snd (traverseRawState L cx db))"
    by simp_all
qed

text \<open>
  C10. For verify-state, traverse-state and traverse-rawstate: without a head block the
  command returns the error "no head block" and has opened no trie and no snapshot tree;
  with no argument, every trie opened, every node reader and the verification are those
  of the head block's state root, and that root's trie is opened (for verify-state: that
  root is verified once the snapshot tree has opened); with one argument that does not
  parse, the command returns an error and no traversal event occurs (the parse error
  itself, once the head block, and for verify-state the snapshot tree, are there); with
  one argument that parses, it is the parsed root that is walked.
\<close>

theorem root_selection:
  "(readHeadBlock db = None \<longrightarrow>
      fst (verifyState L cx db) = Return (Some (Err ''no head block''))
      \<and> \<not> list_ex opensStore (snd (verifyState L cx db))
      \<and> fst (traverseState L cx db) = Return (Some (Err ''no head block''))
      \<and> \<not> list_ex opensStore (snd (traverseState L cx db))
      \<and> fst (traverseRawState L cx db) = Return (Some (Err ''no head block''))
      \<and> \<not> list_ex opensStore (snd (traverseRawState L cx db)))
   \<and> (\<forall>hb. readHeadBlock db = Some hb \<and> NArg cx = 0 \<longrightarrow>
         list_all (walks (blockRoot hb)) (snd (verifyState L cx db))
         \<and> (snapshotNew db (blockRoot hb) = None \<longrightarrow>
              EvVerify (blockRoot hb) \<in> set (snd (verifyState L cx db)))
         \<and> list_all (walks (blockRoot hb)) (snd (traverseState L cx db))
         \<and> EvNewStateTrie (StateTrieID (blockRoot hb)) \<in> set (snd (traverseState L cx db))
         \<and> list_all (walks (blockRoot hb)) (snd (traverseRawState L cx db))
         \<and> EvNewStateTrie (StateTrieID (blockRoot hb)) \<in> set (snd (traverseRawState L cx db)))
   \<and> (\<forall>e. NArg cx = 1 \<and> unmarshalText L (first cx) = Inl e \<longrightarrow>
         (\<exists>err. fst (verifyState L cx db) = Return (Some err))
         \<and> \<not> list_ex traversal (snd (verifyState L cx db))
         \<and> (\<forall>hb. readHeadBlock db = Some hb \<and> snapshotNew db (blockRoot hb) = None \<longrightarrow>
               fst (verifyState L cx db) = Return (Some (Ext e)))
         \<and> (\<exists>err. fst (traverseState L cx db) = Return (Some err))
         \<and> \<not> list_ex traversal (snd (traverseState L cx db))
         \<and> (\<exists>err. fst (traverseRawState L cx db) = Return (Some err))
         \<and> \<not> list_ex traversal (snd (traverseRawState L cx db))
         \<and> (\<forall>hb. readHeadBlock db = Some hb \<longrightarrow>
               fst (traverseState L cx db) = Return (Some (Ext e))
               \<and> fst (traverseRawState L cx db) = Return (Some (Ext e))))
   \<and> (\<forall>h hb. NArg cx = 1 \<and> unmarshalText L (first cx) = Inr h \<and> readHeadBlock db = Some hb \<longrightarrow>
         list_all (walks h) (snd (verifyState L cx db))
         \<and> (snapshotNew db (blockRoot hb) = None \<longrightarrow> EvVerify h \<in> set (snd (verifyState L cx db)))
         \<and> list_all (walks h) (snd (traverseState L cx db))
         \<and> EvNewStateTrie (StateTrieID h) \<in> set (snd (traverseState L cx db))
         \<and> list_all (walks h) (snd (traverseRawState L cx db))
         \<and> EvNewStateTrie (StateTrieID h) \<in> set (snd (traverseRawState L cx db)))"
proof -
  note v = verifyState_root [of db L cx]
  note s = traverseState_root [of db L cx]
  note r = traverseRawState_root [of db L cx]
  have 1: "readHeadBlock db = None \<longrightarrow>
      fst (verifyState L cx db) = Return (Some (Err ''no head block''))
      \<and> \<not> list_ex opensStore (snd (verifyState L cx db))
      \<and> fst (traverseState L cx db) = Return (Some (Err ''no head block''))
      \<and> \<not> list_ex opensStore (snd (traverseState L cx db))
      \<and> fst (traverseRawState L cx db) = Return (Some (Err ''no head block''))
      \<and> \<not> list_ex opensStore (snd (traverseRawState L cx db))"
    using v [THEN conjunct1] s [THEN conjunct1] r [THEN conjunct1] by simp
  have 2: "\<forall>hb. readHeadBlock db = Some hb \<and> NArg cx = 0 \<longrightarrow>
         list_all (walks (blockRoot hb)) (snd (verifyState L cx db))
         \<and> (snapshotNew db (blockRoot hb) = None \<longrightarrow>
              EvVerify (blockRoot hb) \<in> set (snd (verifyState L cx db)))
         \<and> list_all (walks (blockRoot hb)) (snd (traverseState L cx db))
         \<and> EvNewStateTrie (StateTrieID (blockRoot hb)) \<in> set (snd (traverseState L cx db))
         \<and> list_all (walks (blockRoot hb)) (snd (traverseRawState L cx db))
         \<and> EvNewStateTrie (StateTrieID (blockRoot hb)) \<in> set (snd (traverseRawState L cx db))"
    using v [THEN conjunct2, THEN conjunct1] s [THEN conjunct2, THEN conjunct1]
      r [THEN conjunct2, THEN conjunct1] by blast
  have 3: "\<forall>e. NArg cx = 1 \<and> unmarshalText L (first cx) = Inl e \<longrightarrow>
         (\<exists>err. fst (verifyState L cx db) = Return (Some err))
         \<and> \<not> list_ex traversal (snd (verifyState L cx db))
         \<and> (\<forall>hb. readHeadBlock db = Some hb \<and> snapshotNew db (blockRoot hb) = None \<longrightarrow>
               fst (verifyState L cx db) = Return (Some (Ext e)))
         \<and> (\<exists>err. fst (traverseState L cx db) = Return (Some err))
         \<and> \<not> list_ex traversal (snd (traverseState L cx db))
         \<and> (\<exists>err. fst (traverseRawState L cx db) = Return (Some err))
         \<and> \<not> list_ex traversal (snd (traverseRawState L cx db))
         \<and> (\<forall>hb. readHeadBlock db = Some hb \<longrightarrow>
               fst (traverseState L cx db) = Return (Some (Ext e))
               \<and> fst (traverseRawState L cx db) = Return (Some (Ext e)))"
    using v [THEN conjunct2, THEN conjunct2, THEN conjunct1]
      s [THEN conjunct2, THEN conjunct2, THEN conjunct1]
      r [THEN conjunct2, THEN conjunct2, THEN conjunct1] by blast
  have 4: "\<forall>h hb. NArg cx = 1 \<and> unmarshalText L (first cx) = Inr h \<and> readHeadBlock db = Some hb \<longrightarrow>
         list_all (walks h) (snd (verifyState L cx db))
         \<and> (snapshotNew db (blockRoot hb) = None \<longrightarrow> EvVerify h \<in> set (snd (verifyState L cx db)))
         \<and> list_all (walks h) (snd (traverseState L cx db))
         \<and> EvNewStateTrie (StateTrieID h) \<in> set (snd (traverseState L cx db))
         \<and> list_all (walks h) (snd (traverseRawState L cx db))
         \<and> EvNewStateTrie (StateTrieID h) \<in> set (snd (traverseRawState L cx db))"
    using v [THEN conjunct2, THEN conjunct2, THEN conjunct2]
      s [THEN conjunct2, THEN conjunct2, THEN conjunct2]
      r [THEN conjunct2, THEN conjunct2, THEN conjunct2] by blast
  from 1 2 3 4 show ?thesis by (intro conjI)
qed


theorem root_selection_witness:
  "readHeadBlock noHead = None
   \<and> fst (verifyState sampleLib noArgs noHead) = Return (Some (Err ''no head block''))
   \<and> fst (traverseState sampleLib noArgs noHead) = Return (Some (Err ''no head block''))
   \<and> \<not> list_ex opensStore (snd (traverseRawState sampleLib noArgs noHead))
   \<and> NArg noArgs = 0
   \<and> EvVerify (replicate 32 1) \<in> set (snd (verifyState sampleLib noArgs sampleState))
   \<and> EvNewStateTrie (StateTrieID (replicate 32 1)) \<in> set (snd (traverseState sampleLib noArgs sampleState))
   \<and> list_all (walks (replicate 32 1)) (snd (traverseRawState sampleLib noArgs sampleState))
   \<and> NArg badRootArg = 1
   \<and> unmarshalText sampleLib (first badRootArg) = Inl ''invalid hex string''
   \<and> fst (verifyState sampleLib badRootArg sampleState) = Return (Some (Ext ''invalid hex string''))
   \<and> fst (traverseState sampleLib badRootArg sampleState) = Return (Some (Ext ''invalid hex string''))
   \<and> \<not> list_ex traversal (snd (traverseRawState sampleLib badRootArg sampleState))
   \<and> NArg rootArg = 1
   \<and> unmarshalText sampleLib (first rootArg) = Inr (replicate 32 1)
   \<and> EvVerify (replicate 32 1) \<in> set (snd (verifyState sampleLib rootArg sampleState))
   \<and> EvNewStateTrie (StateTrieID (replicate 32 1)) \<in> set (snd (traverseRawState sampleLib rootArg sampleState))"
proof -
  let ?hb = "\<lparr>blockRoot = replicate 32 1, blockNumberU64 = 100\<rparr>"
  have a: "readHeadBlock noHead = None" by (simp add: sample_defs)
  have b: "readHeadBlock sampleState = Some ?hb \<and> NArg noArgs = 0"
    by (simp add: sample_defs)
  have c: "NArg badRootArg = 1 \<and> unmarshalText sampleLib (first badRootArg) = Inl ''invalid hex string''"
    by (simp add: sample_defs)
  have d: "NArg rootArg = 1 \<and> unmarshalText sampleLib (first rootArg) = Inr (replicate 32 1)
      \<and> readHeadBlock sampleState = Some ?hb"
    by (simp add: sample_defs)
  have s: "snapshotNew sampleState (blockRoot ?hb) = None" "blockRoot ?hb = replicate 32 1"
    by (simp_all add: sample_defs)
  note t = root_selection
  note t1 = t [of noHead sampleLib noArgs, THEN conjunct1, rule_format, OF a]
  note t2 = t [of sampleState sampleLib noArgs, THEN conjunct2, THEN conjunct1, rule_format, OF b]
  note t3 = t [of sampleState sampleLib badRootArg, THEN conjunct2, THEN conjunct2, THEN conjunct1,
      rule_format, OF c]
  note t4 = t [of sampleState sampleLib rootArg, THEN conjunct2, THEN conjunct2, THEN conjunct2,
      rule_format, OF d]
  from t1 t2 t3 t4 a b c d s show ?thesis by simp
qed

subsection \<open>traverse-rawstate without a node reader\<close>

text \<open>
  C1. The claim: a read-only verification command never returns success after a failure,
  and in particular traverse-rawstate returns an error when the node reader of the
  requested root cannot be opened. The code logs "State is non-existent" at error level
  and returns nil: on the sample state with an unavailable reader no node is verified and
  the command succeeds, and so it does on an empty head state.
\<close>

theorem traverseRawState_reader_failure:
  "traverseRawState sampleLib noArgs unreadable =
     (Return None,
      [EvMakeChainDatabase True, EvMakeTrieDatabase,
       Log LvInfo ''Start traversing the state''
         [(''root'', VHash (replicate 32 1)), (''number'', VNum 100)],
       EvNewStateTrie (StateTrieID (replicate 32 1)),
       EvNodeReader (replicate 32 1),
       Log LvError ''State is non-existent'' [(''root'', VHash (replicate 32 1))]])
   \<and> traverseRawState sampleLib noArgs emptyHead =
     (Return None,
      [EvMakeChainDatabase True, EvMakeTrieDatabase,
       Log LvInfo ''Start traversing the state''
         [(''root'', VHash (replicate 32 86)), (''number'', VNum 0)],
       EvNewStateTrie (StateTrieID (replicate 32 86)),
       EvNodeReader (replicate 32 86),
       Log LvError ''State is non-existent'' [(''root'', VHash (replicate 32 86))]])"
  by (simp add: traverseRawState_def unreadable_def emptyHead_def sample_defs)


subsection \<open>traverse-state: the account-level walk\<close>














lemmas walk_defs = traverseState_def traverseRawState_def stateAccount_def stateStorage_def
  rawLeaf_def rawStorage_def accountSound_def storageResolves_def nodeVerified_def
  storageNodes_def nodeFailure_def codeless_def flipped_def rootless_def Let_def



subsection \<open>traverse-rawstate: the node-level walk\<close>

lemma rawStorageLoop_ok:
  "rawStorageLoop L rd key ns c = (None, c', tr) \<Longrightarrow>
   (\<forall>m \<in> set ns. nodeVerified L rd (bytesToHash L key) m)
   \<and> cNodes c' = cNodes c + of_nat (length ns) \<and> tr = []"
proof (induction ns arbitrary: c)
  case Nil
  then show ?case by simp
next
  case (Cons n ns)
  let ?c1 = "c\<lparr>cNodes := cNodes c + 1\<rparr>"
  let ?c2 = "if nLeaf n then ?c1\<lparr>cSlots := cSlots ?c1 + 1\<rparr> else ?c1"
  from Cons.prems have v: "nodeVerified L rd (bytesToHash L key) n"
    and rest: "rawStorageLoop L rd key ns ?c2 = (None, c', tr)"
    by (auto simp: nodeVerified_def Let_def split: if_splits)
  from Cons.IH[OF rest] v show ?case by (auto split: if_splits)
qed

lemma rawStorageLoop_abort:
  assumes pre: "\<forall>m \<in> set pre. nodeVerified L rd (bytesToHash L key) m"
    and bad: "\<not> nodeVerified L rd (bytesToHash L key) bad"
  shows "\<exists>c'. rawStorageLoop L rd key (pre @ bad # post) c =
      (Some (fst (nodeFailure L rd (bytesToHash L key) bad ''storage'')), c',
       [snd (nodeFailure L rd (bytesToHash L key) bad ''storage'')])"
  using pre
proof (induction pre arbitrary: c)
  case Nil
  from bad show ?case by (auto simp: nodeVerified_def nodeFailure_def Let_def)
next
  case (Cons n pre)
  from Cons.prems have v: "nodeVerified L rd (bytesToHash L key) n"
    and p: "\<forall>m \<in> set pre. nodeVerified L rd (bytesToHash L key) m" by simp_all
  let ?c1 = "c\<lparr>cNodes := cNodes c + 1\<rparr>"
  let ?c2 = "if nLeaf n then ?c1\<lparr>cSlots := cSlots ?c1 + 1\<rparr> else ?c1"
  have "rawStorageLoop L rd key ((n # pre) @ bad # post) c = rawStorageLoop L rd key (pre @ bad # post) ?c2"
    using v by (auto simp: nodeVerified_def Let_def)
  with Cons.IH[OF p, of ?c2] show ?case by simp
qed


lemma rawStorage_ok:
  assumes "rawStorage L db rd root key acc c = (None, c', tr)"
  shows "\<exists>t it. newStateTrie db (StorageTrieID root (bytesToHash L key) (accRoot acc)) = Inr t
     \<and> nodeIterator t = Inr it
     \<and> (\<forall>m \<in> set (itNodes it). nodeVerified L rd (bytesToHash L key) m)
     \<and> cNodes c' = cNodes c + of_nat (length (itNodes it))"
proof -
  let ?id = "StorageTrieID root (bytesToHash L key) (accRoot acc)"
  from assms obtain t where t: "newStateTrie db ?id = Inr t"
    by (cases "newStateTrie db ?id") (auto simp: rawStorage_def Let_def)
  from assms t obtain it where it: "nodeIterator t = Inr it"
    by (cases "nodeIterator t") (auto simp: rawStorage_def Let_def)
  obtain r c1 tr1 where l: "rawStorageLoop L rd key (itNodes it) c = (r, c1, tr1)"
    by (cases "rawStorageLoop L rd key (itNodes it) c") auto
  from assms t it l have "r = None" and "c1 = c'"
    by (auto simp: rawStorage_def Let_def split: option.splits)
  with rawStorageLoop_ok[of L rd key "itNodes it" c c' tr1] l t it show ?thesis by auto
qed

lemma rawLeaf_ok:
  assumes leaf: "nLeaf n" and ok: "rawLeaf L db rd root n c = (None, c', tr)"
  shows "(\<forall>m \<in> set (storageNodes L db root n). nodeVerified L rd (bytesToHash L (nLeafKey n)) m)
     \<and> cNodes c' = cNodes c + of_nat (length (storageNodes L db root n))"
proof -
  let ?c1 = "c\<lparr>cAccounts := cAccounts c + 1\<rparr>"
  from ok obtain acc where acc: "decodeAccount L (nLeafBlob n) = Inr acc"
    by (cases "decodeAccount L (nLeafBlob n)") (auto simp: rawLeaf_def Let_def)
  show ?thesis
  proof (cases "accRoot acc \<noteq> emptyRootHash L")
    case False
    with ok acc leaf show ?thesis
      by (auto simp: rawLeaf_def storageNodes_def Let_def split: if_splits)
  next
    case True
    obtain r c2 tr2 where s: "rawStorage L db rd root (nLeafKey n) acc ?c1 = (r, c2, tr2)"
      by (cases "rawStorage L db rd root (nLeafKey n) acc ?c1") auto
    from ok acc True s have r: "r = None" and c: "cNodes c' = cNodes c2"
      by (auto simp: rawLeaf_def Let_def split: option.splits if_splits)
    from rawStorage_ok[of L db rd root "nLeafKey n" acc ?c1 c2 tr2] s r
    obtain t it where "newStateTrie db (StorageTrieID root (bytesToHash L (nLeafKey n)) (accRoot acc)) = Inr t"
      "nodeIterator t = Inr it"
      "\<forall>m \<in> set (itNodes it). nodeVerified L rd (bytesToHash L (nLeafKey n)) m"
      "cNodes c2 = cNodes ?c1 + of_nat (length (itNodes it))"
      by auto
    with leaf acc True c show ?thesis by (simp add: storageNodes_def)
  qed
qed

lemma storageNodes_inner: "\<not> nLeaf n \<Longrightarrow> storageNodes L db root n = []"
  by (simp add: storageNodes_def)

lemma rawAccountLoop_ok:
  "rawAccountLoop L db rd root ns c = (None, c', tr) \<Longrightarrow>
   (\<forall>n \<in> set ns. nodeVerified L rd zeroHash n
       \<and> (\<forall>m \<in> set (storageNodes L db root n). nodeVerified L rd (bytesToHash L (nLeafKey n)) m))
   \<and> cNodes c' = cNodes c + of_nat (length ns + sum_list (map (\<lambda>n. length (storageNodes L db root n)) ns))"
proof (induction ns arbitrary: c c' tr)
  case Nil
  then show ?case by simp
next
  case (Cons n ns)
  let ?c1 = "c\<lparr>cNodes := cNodes c + 1\<rparr>"
  from Cons.prems have v: "nodeVerified L rd zeroHash n"
    by (auto simp: nodeVerified_def Let_def split: if_splits)
  obtain r1 c2 tr1 where a: "(if nLeaf n then rawLeaf L db rd root n ?c1 else (None, ?c1, [])) = (r1, c2, tr1)"
    by (cases "if nLeaf n then rawLeaf L db rd root n ?c1 else (None, ?c1, [])") auto
  obtain r2 c3 tr2 where b: "rawAccountLoop L db rd root ns c2 = (r2, c3, tr2)"
    by (cases "rawAccountLoop L db rd root ns c2") auto
  from Cons.prems a b have r1: "r1 = None" and r2: "r2 = None" and c3: "c3 = c'"
    by (auto simp: Let_def split: if_splits option.splits)
  have leaf: "(\<forall>m \<in> set (storageNodes L db root n). nodeVerified L rd (bytesToHash L (nLeafKey n)) m)
      \<and> cNodes c2 = cNodes ?c1 + of_nat (length (storageNodes L db root n))"
  proof (cases "nLeaf n")
    case True
    with a r1 rawLeaf_ok[of n L db rd root ?c1 c2 tr1] show ?thesis by simp
  next
    case False
    with a show ?thesis by (auto simp: storageNodes_inner)
  qed
  from Cons.IH[of c2 c3 tr2] b r2 c3
  have ih: "(\<forall>n \<in> set ns. nodeVerified L rd zeroHash n
       \<and> (\<forall>m \<in> set (storageNodes L db root n). nodeVerified L rd (bytesToHash L (nLeafKey n)) m))"
    "cNodes c' = cNodes c2 + of_nat (length ns + sum_list (map (\<lambda>n. length (storageNodes L db root n)) ns))"
    by simp_all
  from v leaf ih show ?case by simp
qed

lemma rawAccountLoop_append:
  "rawAccountLoop L db rd root (xs @ ys) c =
     (case rawAccountLoop L db rd root xs c of
        (Some e, c1, tr) \<Rightarrow> (Some e, c1, tr)
      | (None, c1, tr) \<Rightarrow>
          (case rawAccountLoop L db rd root ys c1 of (r, c2, tr') \<Rightarrow> (r, c2, tr @ tr')))"
proof (induction xs arbitrary: c)
  case Nil
  then show ?case by (simp split: prod.splits)
next
  case (Cons n xs)
  show ?case
    by (simp add: Cons.IH Let_def split: prod.splits option.splits if_splits)
qed


lemma rawAccountLoop_bad_head:
  "\<not> nodeVerified L rd zeroHash bad \<Longrightarrow>
   rawAccountLoop L db rd root (bad # post) c =
     (Some (fst (nodeFailure L rd zeroHash bad ''account'')), c\<lparr>cNodes := cNodes c + 1\<rparr>,
      [snd (nodeFailure L rd zeroHash bad ''account'')])"
  by (auto simp: nodeVerified_def nodeFailure_def Let_def)

lemma rawAccountLoop_abort:
  assumes "rawAccountLoop L db rd root pre c = (None, c1, tr1)"
    and "\<not> nodeVerified L rd zeroHash bad"
  shows "rawAccountLoop L db rd root (pre @ bad # post) c =
     (Some (fst (nodeFailure L rd zeroHash bad ''account'')), c1\<lparr>cNodes := cNodes c1 + 1\<rparr>,
      tr1 @ [snd (nodeFailure L rd zeroHash bad ''account'')])"
proof -
  from assms(2) have h: "rawAccountLoop L db rd root (bad # post) c1 =
     (Some (fst (nodeFailure L rd zeroHash bad ''account'')), c1\<lparr>cNodes := cNodes c1 + 1\<rparr>,
      [snd (nodeFailure L rd zeroHash bad ''account'')])"
    by (rule rawAccountLoop_bad_head)
  show ?thesis
    by (simp add: rawAccountLoop_append assms(1) h del: rawAccountLoop.simps)
qed

lemma storageNodes_nonempty:
  assumes "storageNodes L db root n \<noteq> []"
  shows "nLeaf n \<and> (\<exists>acc t it. decodeAccount L (nLeafBlob n) = Inr acc \<and> accRoot acc \<noteq> emptyRootHash L
     \<and> newStateTrie db (StorageTrieID root (bytesToHash L (nLeafKey n)) (accRoot acc)) = Inr t
     \<and> nodeIterator t = Inr it \<and> itNodes it = storageNodes L db root n)"
  using assms by (auto simp: storageNodes_def split: if_splits sum.splits)

lemma rawLeaf_storage_abort:
  assumes sn: "storageNodes L db root n = spre @ sbad # spost"
    and pre: "\<forall>m \<in> set spre. nodeVerified L rd (bytesToHash L (nLeafKey n)) m"
    and bad: "\<not> nodeVerified L rd (bytesToHash L (nLeafKey n)) sbad"
  shows "\<exists>c' tr. rawLeaf L db rd root n c =
     (Some (fst (nodeFailure L rd (bytesToHash L (nLeafKey n)) sbad ''storage'')), c',
      tr @ [snd (nodeFailure L rd (bytesToHash L (nLeafKey n)) sbad ''storage'')])"
proof -
  let ?c1 = "c\<lparr>cAccounts := cAccounts c + 1\<rparr>"
  from sn have "storageNodes L db root n \<noteq> []" by simp
  from storageNodes_nonempty[OF this] sn obtain acc t it where
    acc: "decodeAccount L (nLeafBlob n) = Inr acc" and ne: "accRoot acc \<noteq> emptyRootHash L"
    and t: "newStateTrie db (StorageTrieID root (bytesToHash L (nLeafKey n)) (accRoot acc)) = Inr t"
    and it: "nodeIterator t = Inr it" and ns: "itNodes it = spre @ sbad # spost"
    by auto
  from rawStorageLoop_abort[OF pre bad, of spost ?c1] obtain c' where
    "rawStorageLoop L rd (nLeafKey n) (spre @ sbad # spost) ?c1 =
      (Some (fst (nodeFailure L rd (bytesToHash L (nLeafKey n)) sbad ''storage'')), c',
       [snd (nodeFailure L rd (bytesToHash L (nLeafKey n)) sbad ''storage'')])"
    by blast
  with acc ne t it ns have "rawLeaf L db rd root n c =
     (Some (fst (nodeFailure L rd (bytesToHash L (nLeafKey n)) sbad ''storage'')), c',
      [EvNewStateTrie (StorageTrieID root (bytesToHash L (nLeafKey n)) (accRoot acc))]
      @ [snd (nodeFailure L rd (bytesToHash L (nLeafKey n)) sbad ''storage'')])"
    by (simp add: rawLeaf_def rawStorage_def Let_def)
  then show ?thesis by blast
qed

lemma rawAccountLoop_storage_abort:
  assumes reach: "rawAccountLoop L db rd root pre c = (None, c1, tr1)"
    and v: "nodeVerified L rd zeroHash n"
    and sn: "storageNodes L db root n = spre @ sbad # spost"
    and pre: "\<forall>m \<in> set spre. nodeVerified L rd (bytesToHash L (nLeafKey n)) m"
    and bad: "\<not> nodeVerified L rd (bytesToHash L (nLeafKey n)) sbad"
  shows "\<exists>c' tr. rawAccountLoop L db rd root (pre @ n # post) c =
     (Some (fst (nodeFailure L rd (bytesToHash L (nLeafKey n)) sbad ''storage'')), c',
      tr @ [snd (nodeFailure L rd (bytesToHash L (nLeafKey n)) sbad ''storage'')])"
proof -
  let ?nf = "nodeFailure L rd (bytesToHash L (nLeafKey n)) sbad ''storage''"
  let ?c2 = "c1\<lparr>cNodes := cNodes c1 + 1\<rparr>"
  from sn have "storageNodes L db root n \<noteq> []" by simp
  from storageNodes_nonempty[OF this] have leaf: "nLeaf n" by simp
  from rawLeaf_storage_abort[OF sn pre bad, of ?c2] obtain c' tr where
    l: "rawLeaf L db rd root n ?c2 = (Some (fst ?nf), c', tr @ [snd ?nf])" by blast
  have h: "rawAccountLoop L db rd root (n # post) c1 = (Some (fst ?nf), c', tr @ [snd ?nf])"
    using v leaf l by (auto simp: nodeVerified_def Let_def)
  have "rawAccountLoop L db rd root (pre @ n # post) c =
      (Some (fst ?nf), c', (tr1 @ tr) @ [snd ?nf])"
    by (simp add: rawAccountLoop_append reach h del: rawAccountLoop.simps)
  then show ?thesis by blast
qed

lemma traverseRawState_reached:
  assumes "readHeadBlock db = Some hb" "chooseRoot L cx hb = Inr (root, lg)"
    "newStateTrie db (StateTrieID root) = Inr t" "nodeIterator t = Inr accIter"
    "nodeReader db root = Inr rd"
  shows "traverseRawState L cx db =
     (case rawAccountLoop L db rd root (itNodes accIter) noCounts of
        (Some e, c, tr) \<Rightarrow>
          (Return (Some e),
           [EvMakeChainDatabase True, EvMakeTrieDatabase] @ lg @
           [EvNewStateTrie (StateTrieID root), EvNodeReader root] @ tr)
      | (None, c, tr) \<Rightarrow>
          (case itErr accIter of
             Some err \<Rightarrow>
               (Return (Some (Ext err)),
                [EvMakeChainDatabase True, EvMakeTrieDatabase] @ lg @
                [EvNewStateTrie (StateTrieID root), EvNodeReader root] @ tr @
                [Log LvError ''Failed to traverse state trie''
                   [(''root'', VHash root), (''err'', VErr (Ext err))]])
           | None \<Rightarrow>
               (Return None,
                [EvMakeChainDatabase True, EvMakeTrieDatabase] @ lg @
                [EvNewStateTrie (StateTrieID root), EvNodeReader root] @ tr @
                [Log LvInfo ''State is complete''
                   [(''nodes'', VNum (cNodes c)), (''accounts'', VNum (cAccounts c)),
                    (''slots'', VNum (cSlots c)), (''codes'', VNum (cCodes c))]])))"
  using assms by (simp add: traverseRawState_def Let_def split: prod.splits option.splits)


lemma nodeFailure_names:
  "\<exists>msg rest. snd (nodeFailure L rd owner n kind) = Log LvError msg ((''hash'', VHash (nHash n)) # rest)"
  by (simp add: nodeFailure_def Let_def)

text \<open>
  C2, as stated, fails: a leaf of the account trie is a value embedded in its parent; the
  iterator shows it with the zero hash, nothing is stored under that reference, and the
  traversal counts it and goes on to success.
\<close>

theorem traverseRawState_embedded_counterexample:
  "\<lparr>nHash = zeroHash, nPath = [10], nLeaf = True, nLeafKey = [170], nLeafBlob = [4, 7]\<rparr>
      \<in> set (itNodes sampleAccounts)
   \<and> fst (sampleReader zeroHash [10] zeroHash) = []
   \<and> traverseRawState sampleLib noArgs sampleState =
       (Return None,
        [EvMakeChainDatabase True, EvMakeTrieDatabase,
         Log LvInfo ''Start traversing the state''
           [(''root'', VHash (replicate 32 1)), (''number'', VNum 100)],
         EvNewStateTrie (StateTrieID (replicate 32 1)),
         EvNodeReader (replicate 32 1),
         EvNewStateTrie (StorageTrieID (replicate 32 1) (replicate 31 0 @ [170]) (replicate 32 4)),
         Log LvInfo ''State is complete''
           [(''nodes'', VNum 4), (''accounts'', VNum 1), (''slots'', VNum 1), (''codes'', VNum 1)]])"
  by (simp add: sample_defs walk_defs)

text \<open>
  C2, amended. Once traverse-rawstate has opened the account trie and the node reader:
  if it returns success, every node of the account trie and of every storage trie walked
  that has a hash of its own was fetched by its reference and its digest is that hash,
  and the record "State is complete" reports as nodes the number of all positions
  visited, embedded ones included; the first node of the account trie, or of a storage
  trie, whose bytes are missing or whose digest differs ends the traversal with the error
  "missing ..." or "invalid ... node", and the last log record is an error record that
  names that node's hash.
\<close>

theorem traverseRawState_nodes:
  "(\<forall>hb root lg t accIter rd.
       readHeadBlock db = Some hb \<and> chooseRoot L cx hb = Inr (root, lg)
       \<and> newStateTrie db (StateTrieID root) = Inr t \<and> nodeIterator t = Inr accIter
       \<and> nodeReader db root = Inr rd \<longrightarrow>
       (fst (traverseRawState L cx db) = Return None \<longrightarrow>
          (\<forall>n \<in> set (itNodes accIter).
              nodeVerified L rd zeroHash n
              \<and> (\<forall>m \<in> set (storageNodes L db root n). nodeVerified L rd (bytesToHash L (nLeafKey n)) m))
          \<and> (\<exists>a s c. last (snd (traverseRawState L cx db)) =
                Log LvInfo ''State is complete''
                  [(''nodes'', VNum (of_nat (length (itNodes accIter)
                       + sum_list (map (\<lambda>n. length (storageNodes L db root n)) (itNodes accIter))))),
                   (''accounts'', VNum a), (''slots'', VNum s), (''codes'', VNum c)]))
       \<and> (\<forall>pre bad post.
             itNodes accIter = pre @ bad # post
             \<and> fst (rawAccountLoop L db rd root pre noCounts) = None
             \<and> \<not> nodeVerified L rd zeroHash bad \<longrightarrow>
             fst (traverseRawState L cx db) = Return (Some (fst (nodeFailure L rd zeroHash bad ''account'')))
             \<and> last (snd (traverseRawState L cx db)) = snd (nodeFailure L rd zeroHash bad ''account''))
       \<and> (\<forall>pre n post spre sbad spost.
             itNodes accIter = pre @ n # post
             \<and> fst (rawAccountLoop L db rd root pre noCounts) = None
             \<and> nodeVerified L rd zeroHash n
             \<and> storageNodes L db root n = spre @ sbad # spost
             \<and> (\<forall>m \<in> set spre. nodeVerified L rd (bytesToHash L (nLeafKey n)) m)
             \<and> \<not> nodeVerified L rd (bytesToHash L (nLeafKey n)) sbad \<longrightarrow>
             fst (traverseRawState L cx db) =
               Return (Some (fst (nodeFailure L rd (bytesToHash L (nLeafKey n)) sbad ''storage'')))
             \<and> last (snd (traverseRawState L cx db)) =
               snd (nodeFailure L rd (bytesToHash L (nLeafKey n)) sbad ''storage'')))
   \<and> (\<forall>rd owner n kind. \<exists>msg rest.
         snd (nodeFailure L rd owner n kind) = Log LvError msg ((''hash'', VHash (nHash n)) # rest))"
proof (intro conjI allI impI)
  fix hb root lg t accIter rd
  assume p: "readHeadBlock db = Some hb \<and> chooseRoot L cx hb = Inr (root, lg)
       \<and> newStateTrie db (StateTrieID root) = Inr t \<and> nodeIterator t = Inr accIter
       \<and> nodeReader db root = Inr rd"
  then have reached: "traverseRawState L cx db =
     (case rawAccountLoop L db rd root (itNodes accIter) noCounts of
        (Some e, c, tr) \<Rightarrow>
          (Return (Some e),
           [EvMakeChainDatabase True, EvMakeTrieDatabase] @ lg @
           [EvNewStateTrie (StateTrieID root), EvNodeReader root] @ tr)
      | (None, c, tr) \<Rightarrow>
          (case itErr accIter of
             Some err \<Rightarrow>
               (Return (Some (Ext err)),
                [EvMakeChainDatabase True, EvMakeTrieDatabase] @ lg @
                [EvNewStateTrie (StateTrieID root), EvNodeReader root] @ tr @
                [Log LvError ''Failed to traverse state trie''
                   [(''root'', VHash root), (''err'', VErr (Ext err))]])
           | None \<Rightarrow>
               (Return None,
                [EvMakeChainDatabase True, EvMakeTrieDatabase] @ lg @
                [EvNewStateTrie (StateTrieID root), EvNodeReader root] @ tr @
                [Log LvInfo ''State is complete''
                   [(''nodes'', VNum (cNodes c)), (''accounts'', VNum (cAccounts c)),
                    (''slots'', VNum (cSlots c)), (''codes'', VNum (cCodes c))]])))"
    using traverseRawState_reached [of db hb L cx root lg t accIter rd] by simp
  {
    assume ok: "fst (traverseRawState L cx db) = Return None"
    obtain r c tr where l: "rawAccountLoop L db rd root (itNodes accIter) noCounts = (r, c, tr)"
      by (cases "rawAccountLoop L db rd root (itNodes accIter) noCounts") auto
    from ok reached l have r: "r = None" and e: "itErr accIter = None"
      by (auto split: option.splits)
    from rawAccountLoop_ok [of L db rd root "itNodes accIter" noCounts c tr] l r
    have v: "\<forall>n \<in> set (itNodes accIter). nodeVerified L rd zeroHash n
              \<and> (\<forall>m \<in> set (storageNodes L db root n). nodeVerified L rd (bytesToHash L (nLeafKey n)) m)"
      and n: "cNodes c = of_nat (length (itNodes accIter)
                 + sum_list (map (\<lambda>n. length (storageNodes L db root n)) (itNodes accIter)))"
      by (simp_all add: noCounts_def)
    from v show "\<forall>n \<in> set (itNodes accIter). nodeVerified L rd zeroHash n
              \<and> (\<forall>m \<in> set (storageNodes L db root n). nodeVerified L rd (bytesToHash L (nLeafKey n)) m)" .
    from reached l r e n
    show "\<exists>a s c. last (snd (traverseRawState L cx db)) =
                Log LvInfo ''State is complete''
                  [(''nodes'', VNum (of_nat (length (itNodes accIter)
                       + sum_list (map (\<lambda>n. length (storageNodes L db root n)) (itNodes accIter))))),
                   (''accounts'', VNum a), (''slots'', VNum s), (''codes'', VNum c)]"
      by simp
  }
  {
    fix pre bad post
    assume a: "itNodes accIter = pre @ bad # post
             \<and> fst (rawAccountLoop L db rd root pre noCounts) = None
             \<and> \<not> nodeVerified L rd zeroHash bad"
    then obtain c1 tr1 where "rawAccountLoop L db rd root pre noCounts = (None, c1, tr1)"
      by (cases "rawAccountLoop L db rd root pre noCounts") auto
    from rawAccountLoop_abort [OF this, of bad post] a
    have "rawAccountLoop L db rd root (itNodes accIter) noCounts =
       (Some (fst (nodeFailure L rd zeroHash bad ''account'')), c1\<lparr>cNodes := cNodes c1 + 1\<rparr>,
        tr1 @ [snd (nodeFailure L rd zeroHash bad ''account'')])"
      by simp
    with reached
    show "fst (traverseRawState L cx db) = Return (Some (fst (nodeFailure L rd zeroHash bad ''account'')))"
      and "last (snd (traverseRawState L cx db)) = snd (nodeFailure L rd zeroHash bad ''account'')"
      by simp_all
  }
  {
    fix pre n post spre sbad spost
    assume a: "itNodes accIter = pre @ n # post
             \<and> fst (rawAccountLoop L db rd root pre noCounts) = None
             \<and> nodeVerified L rd zeroHash n
             \<and> storageNodes L db root n = spre @ sbad # spost
             \<and> (\<forall>m \<in> set spre. nodeVerified L rd (bytesToHash L (nLeafKey n)) m)
             \<and> \<not> nodeVerified L rd (bytesToHash L (nLeafKey n)) sbad"
    then obtain c1 tr1 where r: "rawAccountLoop L db rd root pre noCounts = (None, c1, tr1)"
      by (cases "rawAccountLoop L db rd root pre noCounts") auto
    from a have v: "nodeVerified L rd zeroHash n"
      and sn: "storageNodes L db root n = spre @ sbad # spost"
      and sp: "\<forall>m \<in> set spre. nodeVerified L rd (bytesToHash L (nLeafKey n)) m"
      and sb: "\<not> nodeVerified L rd (bytesToHash L (nLeafKey n)) sbad"
      by simp_all
    from rawAccountLoop_storage_abort [OF r v sn sp sb, of post] a
    obtain c' tr where "rawAccountLoop L db rd root (itNodes accIter) noCounts =
       (Some (fst (nodeFailure L rd (bytesToHash L (nLeafKey n)) sbad ''storage'')), c',
        tr @ [snd (nodeFailure L rd (bytesToHash L (nLeafKey n)) sbad ''storage'')])"
      by auto
    with reached
    show "fst (traverseRawState L cx db) =
               Return (Some (fst (nodeFailure L rd (bytesToHash L (nLeafKey n)) sbad ''storage'')))"
      and "last (snd (traverseRawState L cx db)) =
               snd (nodeFailure L rd (bytesToHash L (nLeafKey n)) sbad ''storage'')"
      by simp_all
  }
next
  fix rd owner n kind
  show "\<exists>msg rest. snd (nodeFailure L rd owner n kind) =
      Log LvError msg ((''hash'', VHash (nHash n)) # rest)"
    by (rule nodeFailure_names)
qed


theorem traverseRawState_nodes_witness:
  "fst (traverseRawState sampleLib noArgs sampleState) = Return None
   \<and> last (snd (traverseRawState sampleLib noArgs sampleState)) =
       Log LvInfo ''State is complete''
         [(''nodes'', VNum 4), (''accounts'', VNum 1), (''slots'', VNum 1), (''codes'', VNum 1)]
   \<and> fst (traverseRawState sampleLib noArgs rootless) = Return (Some (Err ''missing account''))
   \<and> last (snd (traverseRawState sampleLib noArgs rootless)) =
       Log LvError ''Missing trie node(account)'' [(''hash'', VHash (replicate 32 1))]
   \<and> fst (traverseRawState sampleLib noArgs flipped) = Return (Some (Err ''invalid storage node''))
   \<and> last (snd (traverseRawState sampleLib noArgs flipped)) =
       Log LvError ''Invalid trie node(storage)''
         [(''hash'', VHash (replicate 32 4)), (''value'', VBytes [5])]"
proof -
  let ?hb = "\<lparr>blockRoot = replicate 32 1, blockNumberU64 = 100\<rparr>"
  let ?lg = "[Log LvInfo ''Start traversing the state''
                [(''root'', VHash (replicate 32 1)), (''number'', VNum 100)]]"
  let ?t = "\<lparr>nodeIterator = Inr sampleAccounts\<rparr>"
  let ?root = "\<lparr>nHash = replicate 32 1, nPath = [], nLeaf = False, nLeafKey = [], nLeafBlob = []\<rparr>"
  let ?leaf = "\<lparr>nHash = zeroHash, nPath = [10], nLeaf = True, nLeafKey = [170], nLeafBlob = [4, 7]\<rparr>"
  let ?sroot = "\<lparr>nHash = replicate 32 4, nPath = [], nLeaf = False, nLeafKey = [], nLeafBlob = []\<rparr>"
  let ?slot = "\<lparr>nHash = zeroHash, nPath = [1], nLeaf = True, nLeafKey = [1], nLeafBlob = [9]\<rparr>"
  let ?rl = "\<lambda>owner path h. if h = replicate 32 1 then ([], Some ''not found'')
                               else sampleReader owner path h"
  let ?fl = "\<lambda>owner path h. if h = replicate 32 4 then ([5], None) else sampleReader owner path h"
  have a: "readHeadBlock sampleState = Some ?hb \<and> chooseRoot sampleLib noArgs ?hb = Inr (replicate 32 1, ?lg)
      \<and> newStateTrie sampleState (StateTrieID (replicate 32 1)) = Inr ?t
      \<and> nodeIterator ?t = Inr sampleAccounts
      \<and> nodeReader sampleState (replicate 32 1) = Inr sampleReader"
    by (simp add: sample_defs)
  have b: "readHeadBlock rootless = Some ?hb \<and> chooseRoot sampleLib noArgs ?hb = Inr (replicate 32 1, ?lg)
      \<and> newStateTrie rootless (StateTrieID (replicate 32 1)) = Inr ?t
      \<and> nodeIterator ?t = Inr sampleAccounts
      \<and> nodeReader rootless (replicate 32 1) = Inr ?rl"
    by (simp add: sample_defs rootless_def)
  have c: "readHeadBlock flipped = Some ?hb \<and> chooseRoot sampleLib noArgs ?hb = Inr (replicate 32 1, ?lg)
      \<and> newStateTrie flipped (StateTrieID (replicate 32 1)) = Inr ?t
      \<and> nodeIterator ?t = Inr sampleAccounts
      \<and> nodeReader flipped (replicate 32 1) = Inr ?fl"
    by (simp add: sample_defs flipped_def)
  have ok: "fst (traverseRawState sampleLib noArgs sampleState) = Return None"
    by (simp add: sample_defs walk_defs)
  have n: "(of_nat (length (itNodes sampleAccounts)
       + sum_list (map (\<lambda>n. length (storageNodes sampleLib sampleState (replicate 32 1) n))
           (itNodes sampleAccounts))) :: 64 word) = 4"
    by (simp add: sample_defs walk_defs)
  have bb: "itNodes sampleAccounts = [] @ ?root # [?leaf]
      \<and> fst (rawAccountLoop sampleLib rootless ?rl (replicate 32 1) [] noCounts) = None
      \<and> \<not> nodeVerified sampleLib ?rl zeroHash ?root"
    by (simp add: sample_defs walk_defs)
  have cc: "itNodes sampleAccounts = [?root] @ ?leaf # []
      \<and> fst (rawAccountLoop sampleLib flipped ?fl (replicate 32 1) [?root] noCounts) = None
      \<and> nodeVerified sampleLib ?fl zeroHash ?leaf
      \<and> storageNodes sampleLib flipped (replicate 32 1) ?leaf = [] @ ?sroot # [?slot]
      \<and> (\<forall>m \<in> set []. nodeVerified sampleLib ?fl (bytesToHash sampleLib (nLeafKey ?leaf)) m)
      \<and> \<not> nodeVerified sampleLib ?fl (bytesToHash sampleLib (nLeafKey ?leaf)) ?sroot"
    by (simp add: sample_defs walk_defs)
  have f1: "nodeFailure sampleLib ?rl zeroHash ?root ''account'' =
      (Err ''missing account'',
       Log LvError ''Missing trie node(account)'' [(''hash'', VHash (replicate 32 1))])"
    by (simp add: sample_defs walk_defs)
  have f2: "nodeFailure sampleLib ?fl (bytesToHash sampleLib (nLeafKey ?leaf)) ?sroot ''storage'' =
      (Err ''invalid storage node'',
       Log LvError ''Invalid trie node(storage)''
         [(''hash'', VHash (replicate 32 4)), (''value'', VBytes [5])])"
    by (simp add: sample_defs walk_defs)
  have ev: "last (snd (traverseRawState sampleLib noArgs sampleState)) =
       Log LvInfo ''State is complete''
         [(''nodes'', VNum 4), (''accounts'', VNum 1), (''slots'', VNum 1), (''codes'', VNum 1)]"
    by (simp add: sample_defs walk_defs)
  note t = traverseRawState_nodes
  note t1 = t [of sampleState sampleLib noArgs, THEN conjunct1, rule_format, OF a, THEN conjunct1,
      rule_format, OF ok, THEN conjunct2]
  note t2 = t [of rootless sampleLib noArgs, THEN conjunct1, rule_format, OF b, THEN conjunct2,
      THEN conjunct1, rule_format, OF bb]
  note t3 = t [of flipped sampleLib noArgs, THEN conjunct1, rule_format, OF c, THEN conjunct2,
      THEN conjunct2, rule_format, OF cc]
  from t1 t2 t3 ok n ev f1 f2 show ?thesis by simp
qed


end
